theory Spec2Isabelle
  imports Complex_Main "HOL-Library.Word"
begin

section \<open>The facade of vs\_flann.hpp\<close>

text \<open>
  The source file \<^verbatim>\<open>vs_flann.hpp\<close> holds the free function \<^verbatim>\<open>log_verbosity\<close>, the
  struct \<^verbatim>\<open>SavedIndexParams\<close> and the class template \<^verbatim>\<open>MultiThreadIndex<Distance>\<close>.
  Everything else it uses (\<^verbatim>\<open>Logger\<close>, \<^verbatim>\<open>IndexParams\<close>, \<^verbatim>\<open>get_param\<close>, \<^verbatim>\<open>Matrix\<close>,
  \<^verbatim>\<open>IndexHeader\<close>, \<^verbatim>\<open>load_header\<close>, \<^verbatim>\<open>create_index_by_type\<close>, the abstract class
  \<^verbatim>\<open>NNIndex<Distance>\<close>) is declared in headers that are not part of the sources.
  Those collaborators are parameters of the model: a record \<open>env\<close> of functions,
  over which the theorems about the facade are universally quantified. Where a
  property rests on what an algorithm itself does, it is stated for the linear
  algorithm, modelled from the spec.
\<close>

subsection \<open>log\_verbosity\<close>

text \<open>
  \<^verbatim>\<open>inline void log_verbosity(int level) { if (level >= 0) { Logger::setLevel(level); } }\<close>

  \<^verbatim>\<open>int\<close> is a signed 32-bit word, compared as a signed number. The static member
  \<^verbatim>\<open>Logger::setLevel\<close> is a parameter, acting on the process-wide logger state \<open>'lg\<close>.
\<close>

definition log_verbosity :: "(32 word \<Rightarrow> 'lg \<Rightarrow> 'lg) \<Rightarrow> 32 word \<Rightarrow> 'lg \<Rightarrow> 'lg" where
  "log_verbosity Logger_setLevel level lg =
     (if 0 \<le>s level then Logger_setLevel level lg else lg)"

text \<open>
  Modelled from the spec: the class \<^verbatim>\<open>Logger\<close> is missing from the sources. The spec
  calls it a "global logging verbosity setter" of "process-wide" state: a logger that
  holds its level, and a setter that stores the level it is given.
\<close>

record Logger =
  logLevel :: "32 word"

definition Logger_setLevel :: "32 word \<Rightarrow> Logger \<Rightarrow> Logger" where
  "Logger_setLevel level lg = lg\<lparr>logLevel := level\<rparr>"

subsection \<open>Types of the collaborators\<close>

type_synonym byte = "8 word"
type_synonym addr = nat

text \<open>
  Modelled from the spec: \<^verbatim>\<open>flann_algorithm_t\<close> and \<^verbatim>\<open>flann_datatype_t\<close> are enums of the
  missing \<^verbatim>\<open>vs_general.h\<close>. The algorithm tag is "enumerated: one concrete strategy
  identifier, or a sentinel meaning restore from a saved file"; the element type tag is
  an enum value, kept as the integer it is.
\<close>

datatype flann_algorithm_t = FLANN_INDEX_SAVED | FLANN_INDEX_CONCRETE nat

type_synonym flann_datatype_t = int

text \<open>
  Modelled from the spec: \<^verbatim>\<open>IndexParams\<close> (\<^verbatim>\<open>util/vs_params.h\<close>) is "a mapping from
  option name to value"; the values this file stores and reads are algorithm tags and
  strings. \<^verbatim>\<open>get_param<T>(params, name)\<close> reads the value of a name at type \<open>T\<close>; what
  it does when the name is absent or holds another type is not in the sources, the
  model makes it the error \<open>Missing_parameter\<close>.
\<close>

datatype any = any_algorithm flann_algorithm_t | any_string string | any_int int

type_synonym IndexParams = "string \<rightharpoonup> any"

datatype error =
    FLANNException string
  | Missing_parameter string
  | Undefined_behaviour

definition get_param_algorithm :: "IndexParams \<Rightarrow> string \<Rightarrow> error + flann_algorithm_t" where
  "get_param_algorithm params name =
     (case params name of
        Some (any_algorithm t) \<Rightarrow> Inr t
      | _ \<Rightarrow> Inl (Missing_parameter name))"

definition get_param_string :: "IndexParams \<Rightarrow> string \<Rightarrow> error + string" where
  "get_param_string params name =
     (case params name of
        Some (any_string s) \<Rightarrow> Inr s
      | _ \<Rightarrow> Inl (Missing_parameter name))"

text \<open>
  Modelled from the spec: \<^verbatim>\<open>Matrix<T>\<close> (\<^verbatim>\<open>util/vs_matrix.h\<close>) is a "2D numeric container
  (rows = points, columns = fixed dimensionality)": the list of its rows. A
  default-constructed matrix has no rows. \<^verbatim>\<open>std::vector<std::vector<T>>\<close> is a list of
  lists as well. \<^verbatim>\<open>size_t\<close> values are only passed through and are natural numbers;
  \<^verbatim>\<open>int\<close> results are only passed through and are integers; the \<^verbatim>\<open>float\<close> arguments
  are only passed through and are reals.
\<close>

type_synonym 'e Matrix = "'e list list"

text \<open>
  \<^verbatim>\<open>IndexHeader\<close> (\<^verbatim>\<open>util/vs_saving.h\<close>): the two fields this file reads,
  \<^verbatim>\<open>header.h.data_type\<close> and \<^verbatim>\<open>header.h.index_type\<close>.
\<close>

record IndexHeader =
  h_data_type :: flann_datatype_t
  h_index_type :: flann_algorithm_t

text \<open>
  A C stream (\<^verbatim>\<open>FILE*\<close>): the name it was opened on, whether it was opened for
  writing, the bytes behind it and the position of the next read or write.
\<close>

record FILE =
  fname :: string
  fwrite :: bool
  fdata :: "byte list"
  fpos :: nat

subsection \<open>The world: heap, file system, and the calls made so far\<close>

datatype member_fn =
    M_buildIndex | M_buildIndex_points | M_addPoints | M_removePoint | M_getPoint
  | M_saveIndex | M_loadIndex | M_clone | M_delete
  | M_veclen | M_size | M_getType | M_usedMemory | M_getParameters
  | M_knnSearch_Matrix_size_t | M_knnSearch_Matrix_int
  | M_knnSearch_vector_size_t | M_knnSearch_vector_int
  | M_radiusSearch_Matrix_size_t | M_radiusSearch_Matrix_int
  | M_radiusSearch_vector_size_t | M_radiusSearch_vector_int

datatype call =
    Call_fopen string string
  | Call_fclose string
  | Call_rewind string
  | Call_load_header string
  | Call_create_index_by_type flann_algorithm_t
  | Call_member addr member_fn

text \<open>
  \<open>heap\<close> holds the algorithm objects made by \<^verbatim>\<open>new\<close>: an address is an index into
  the list, \<open>None\<close> marks a deleted object. \<open>files\<close> is the content of every file that
  can be opened for reading, \<open>writable\<close> says which names can be opened for writing.
  \<open>calls\<close> records, in program order, each call the facade makes to a collaborator.
\<close>

record 'idx world =
  heap :: "'idx option list"
  files :: "string \<rightharpoonup> byte list"
  writable :: "string \<Rightarrow> bool"
  calls :: "call list"

definition logged :: "call \<Rightarrow> 'idx world \<Rightarrow> 'idx world" where
  "logged c w = w\<lparr>calls := calls w @ [c]\<rparr>"

definition deref :: "'idx option list \<Rightarrow> addr \<Rightarrow> 'idx option" where
  "deref h a = (if a < length h then h ! a else None)"

definition new :: "'idx \<Rightarrow> 'idx world \<Rightarrow> addr \<times> 'idx world" where
  "new obj w = (length (heap w), w\<lparr>heap := heap w @ [Some obj]\<rparr>)"

text \<open>
  \<^verbatim>\<open>fopen(filename, "rb")\<close> gives \<^verbatim>\<open>NULL\<close> when the file cannot be read;
  \<^verbatim>\<open>fopen(filename, "wb")\<close> gives \<^verbatim>\<open>NULL\<close> when the name cannot be written, and
  otherwise creates the file or truncates it. Output reaches the file at \<^verbatim>\<open>fclose\<close>.
\<close>

definition fopen :: "string \<Rightarrow> string \<Rightarrow> 'idx world \<Rightarrow> FILE option \<times> 'idx world" where
  "fopen filename mode w =
     (let w1 = logged (Call_fopen filename mode) w in
      if mode = ''rb'' then
        (case files w filename of
           None \<Rightarrow> (None, w1)
         | Some bs \<Rightarrow> (Some \<lparr>fname = filename, fwrite = False, fdata = bs, fpos = 0\<rparr>, w1))
      else if mode = ''wb'' \<and> writable w filename then
        (Some \<lparr>fname = filename, fwrite = True, fdata = [], fpos = 0\<rparr>,
         w1\<lparr>files := (files w)(filename \<mapsto> [])\<rparr>)
      else (None, w1))"

definition rewind :: "FILE \<Rightarrow> 'idx world \<Rightarrow> FILE \<times> 'idx world" where
  "rewind stream w = (stream\<lparr>fpos := 0\<rparr>, logged (Call_rewind (fname stream)) w)"

definition fclose :: "FILE \<Rightarrow> 'idx world \<Rightarrow> 'idx world" where
  "fclose stream w =
     (let w1 = logged (Call_fclose (fname stream)) w in
      if fwrite stream then w1\<lparr>files := (files w)(fname stream \<mapsto> fdata stream)\<rparr> else w1)"

subsection \<open>The collaborators as parameters\<close>

text \<open>
  \<open>'idx\<close> is the state of an object of a class derived from \<^verbatim>\<open>NNIndex<Distance>\<close>,
  \<open>'e\<close> is \<^verbatim>\<open>ElementType\<close>, \<open>'r\<close> is \<^verbatim>\<open>DistanceType\<close>, \<open>'d\<close> is \<^verbatim>\<open>Distance\<close> and \<open>'sp\<close> is
  \<^verbatim>\<open>SearchParams\<close>. A virtual member function takes the object and returns what it
  returns or throws, and the object as it leaves it; a \<^verbatim>\<open>const\<close> one returns no
  object. A function that is handed a stream to read returns the position it leaves
  the stream at; one that is handed a stream to write returns the bytes and the
  position it leaves. The name and the mode of a stream never change. Output
  arguments are taken as they come in and returned as they go out.
  \<open>elem_type\<close> is \<^verbatim>\<open>flann_datatype_value<ElementType>::value\<close>.
\<close>

record ('idx, 'e, 'r, 'd, 'sp) env =
  elem_type :: flann_datatype_t
  load_header :: "FILE \<Rightarrow> error + IndexHeader \<times> nat"
  create_index_by_type ::
    "flann_algorithm_t \<Rightarrow> 'e Matrix \<Rightarrow> IndexParams \<Rightarrow> 'd \<Rightarrow> error + 'idx"
  NNIndex_clone :: "'idx \<Rightarrow> error + 'idx"
  NNIndex_buildIndex :: "'idx \<Rightarrow> (error + unit) \<times> 'idx"
  NNIndex_buildIndex_points :: "'e Matrix \<Rightarrow> 'idx \<Rightarrow> (error + unit) \<times> 'idx"
  NNIndex_addPoints :: "'e Matrix \<Rightarrow> real \<Rightarrow> 'idx \<Rightarrow> (error + unit) \<times> 'idx"
  NNIndex_removePoint :: "nat \<Rightarrow> 'idx \<Rightarrow> (error + unit) \<times> 'idx"
  NNIndex_getPoint :: "nat \<Rightarrow> 'idx \<Rightarrow> (error + 'e list option) \<times> 'idx"
  NNIndex_saveIndex :: "FILE \<Rightarrow> 'idx \<Rightarrow> (error + byte list \<times> nat) \<times> 'idx"
  NNIndex_loadIndex :: "FILE \<Rightarrow> 'idx \<Rightarrow> (error + nat) \<times> 'idx"
  NNIndex_veclen :: "'idx \<Rightarrow> error + nat"
  NNIndex_size :: "'idx \<Rightarrow> error + nat"
  NNIndex_getType :: "'idx \<Rightarrow> error + flann_algorithm_t"
  NNIndex_usedMemory :: "'idx \<Rightarrow> error + int"
  NNIndex_getParameters :: "'idx \<Rightarrow> error + IndexParams"
  NNIndex_knnSearch_Matrix_size_t ::
    "'e Matrix \<Rightarrow> nat Matrix \<Rightarrow> 'r Matrix \<Rightarrow> nat \<Rightarrow> 'sp \<Rightarrow> 'idx
       \<Rightarrow> error + int \<times> nat Matrix \<times> 'r Matrix"
  NNIndex_knnSearch_Matrix_int ::
    "'e Matrix \<Rightarrow> int Matrix \<Rightarrow> 'r Matrix \<Rightarrow> nat \<Rightarrow> 'sp \<Rightarrow> 'idx
       \<Rightarrow> error + int \<times> int Matrix \<times> 'r Matrix"
  NNIndex_knnSearch_vector_size_t ::
    "'e Matrix \<Rightarrow> nat list list \<Rightarrow> 'r list list \<Rightarrow> nat \<Rightarrow> 'sp \<Rightarrow> 'idx
       \<Rightarrow> error + int \<times> nat list list \<times> 'r list list"
  NNIndex_knnSearch_vector_int ::
    "'e Matrix \<Rightarrow> int list list \<Rightarrow> 'r list list \<Rightarrow> nat \<Rightarrow> 'sp \<Rightarrow> 'idx
       \<Rightarrow> error + int \<times> int list list \<times> 'r list list"
  NNIndex_radiusSearch_Matrix_size_t ::
    "'e Matrix \<Rightarrow> nat Matrix \<Rightarrow> 'r Matrix \<Rightarrow> real \<Rightarrow> 'sp \<Rightarrow> 'idx
       \<Rightarrow> error + int \<times> nat Matrix \<times> 'r Matrix"
  NNIndex_radiusSearch_Matrix_int ::
    "'e Matrix \<Rightarrow> int Matrix \<Rightarrow> 'r Matrix \<Rightarrow> real \<Rightarrow> 'sp \<Rightarrow> 'idx
       \<Rightarrow> error + int \<times> int Matrix \<times> 'r Matrix"
  NNIndex_radiusSearch_vector_size_t ::
    "'e Matrix \<Rightarrow> nat list list \<Rightarrow> 'r list list \<Rightarrow> real \<Rightarrow> 'sp \<Rightarrow> 'idx
       \<Rightarrow> error + int \<times> nat list list \<times> 'r list list"
  NNIndex_radiusSearch_vector_int ::
    "'e Matrix \<Rightarrow> int list list \<Rightarrow> 'r list list \<Rightarrow> real \<Rightarrow> 'sp \<Rightarrow> 'idx
       \<Rightarrow> error + int \<times> int list list \<times> 'r list list"

text \<open>
  \<^verbatim>\<open>p->f(...)\<close> for a member function \<open>f\<close> that is not \<^verbatim>\<open>const\<close>: through a null
  pointer, or a pointer to a deleted object, the behaviour is undefined; otherwise
  the call is recorded and the object is left as \<open>f\<close> leaves it.
\<close>

definition member_call ::
  "member_fn \<Rightarrow> addr option \<Rightarrow> ('idx \<Rightarrow> (error + 'a) \<times> 'idx) \<Rightarrow> 'idx world
     \<Rightarrow> (error + 'a) \<times> 'idx world" where
  "member_call m p f w =
     (case p of
        None \<Rightarrow> (Inl Undefined_behaviour, w)
      | Some a \<Rightarrow>
          (case deref (heap w) a of
             None \<Rightarrow> (Inl Undefined_behaviour, w)
           | Some obj \<Rightarrow>
               (case f obj of
                  (r, obj') \<Rightarrow>
                    (r, (logged (Call_member a m) w)\<lparr>heap := (heap w)[a := Some obj']\<rparr>))))"

definition const_member_call ::
  "member_fn \<Rightarrow> addr option \<Rightarrow> ('idx \<Rightarrow> error + 'a) \<Rightarrow> 'idx world
     \<Rightarrow> (error + 'a) \<times> 'idx world" where
  "const_member_call m p f w = member_call m p (\<lambda>obj. (f obj, obj)) w"

text \<open>
  The free functions \<^verbatim>\<open>load_header(fin)\<close> and \<^verbatim>\<open>create_index_by_type<Distance>(...)\<close>,
  recorded as calls. Modelled from the spec: \<^verbatim>\<open>create_index_by_type\<close> "constructs a
  fresh instance" of the concrete algorithm, so the object its parameter describes is
  put on the heap with \<^verbatim>\<open>new\<close> and its address is returned; an "unsupported algorithm
  tag" is an error of the parameter.
\<close>

definition call_load_header ::
  "('idx, 'e, 'r, 'd, 'sp) env \<Rightarrow> FILE \<Rightarrow> 'idx world
     \<Rightarrow> (error + IndexHeader \<times> FILE) \<times> 'idx world" where
  "call_load_header env stream w =
     (case load_header env stream of
        Inl e \<Rightarrow> (Inl e, logged (Call_load_header (fname stream)) w)
      | Inr (header, pos) \<Rightarrow>
          (Inr (header, stream\<lparr>fpos := pos\<rparr>), logged (Call_load_header (fname stream)) w))"

definition call_create_index_by_type ::
  "('idx, 'e, 'r, 'd, 'sp) env \<Rightarrow> flann_algorithm_t \<Rightarrow> 'e Matrix \<Rightarrow> IndexParams \<Rightarrow> 'd
     \<Rightarrow> 'idx world \<Rightarrow> (error + addr) \<times> 'idx world" where
  "call_create_index_by_type env t dataset params distance w =
     (let w1 = logged (Call_create_index_by_type t) w in
      case create_index_by_type env t dataset params distance of
        Inl e \<Rightarrow> (Inl e, w1)
      | Inr obj \<Rightarrow> (case new obj w1 of (a, w2) \<Rightarrow> (Inr a, w2)))"

text \<open>
  \<^verbatim>\<open>other.nnIndex_->clone()\<close>: "clone() -> new owned instance". The \<^verbatim>\<open>const\<close> member
  function describes the copy, which is put on the heap with \<^verbatim>\<open>new\<close>.
\<close>

definition call_clone ::
  "('idx, 'e, 'r, 'd, 'sp) env \<Rightarrow> addr option \<Rightarrow> 'idx world \<Rightarrow> (error + addr) \<times> 'idx world" where
  "call_clone env p w =
     (case const_member_call M_clone p (NNIndex_clone env) w of
        (Inl e, w1) \<Rightarrow> (Inl e, w1)
      | (Inr obj, w1) \<Rightarrow> (case new obj w1 of (a, w2) \<Rightarrow> (Inr a, w2)))"

text \<open>
  \<^verbatim>\<open>delete p\<close>: nothing for a null pointer, undefined for a pointer to a deleted
  object, otherwise the object is destroyed.
\<close>

definition call_delete :: "addr option \<Rightarrow> 'idx world \<Rightarrow> (error + unit) \<times> 'idx world" where
  "call_delete p w =
     (case p of
        None \<Rightarrow> (Inr (), w)
      | Some a \<Rightarrow>
          (case deref (heap w) a of
             None \<Rightarrow> (Inl Undefined_behaviour, w)
           | Some obj \<Rightarrow> (Inr (), (logged (Call_member a M_delete) w)\<lparr>heap := (heap w)[a := None]\<rparr>)))"

subsection \<open>SavedIndexParams\<close>

text \<open>
  \<^verbatim>\<open>SavedIndexParams(std::string filename)
  { (*this)["algorithm"] = FLANN_INDEX_SAVED; (*this)["filename"] = filename; }\<close>
\<close>

definition SavedIndexParams :: "string \<Rightarrow> IndexParams" where
  "SavedIndexParams filename =
     (Map.empty(''algorithm'' \<mapsto> any_algorithm FLANN_INDEX_SAVED))
       (''filename'' \<mapsto> any_string filename)"

subsection \<open>MultiThreadIndex: data members\<close>

text \<open>
  \<^verbatim>\<open>IndexType* nnIndex_; bool loaded_; IndexParams index_params_;\<close>

  A name cannot end in an underscore here, so the members \<^verbatim>\<open>nnIndex_\<close>, \<^verbatim>\<open>loaded_\<close> and
  \<^verbatim>\<open>index_params_\<close> are the fields \<open>m_nnIndex\<close>, \<open>m_loaded\<close> and \<open>m_index_params\<close>. A
  pointer is an address, or \<open>None\<close> for \<^verbatim>\<open>NULL\<close>.
\<close>

record MultiThreadIndex =
  m_nnIndex :: "addr option"
  m_loaded :: bool
  m_index_params :: IndexParams

subsection \<open>load\_saved\_index\<close>

text \<open>
  The private member function, lines 343 to 362. It returns \<^verbatim>\<open>NULL\<close> (\<open>Inr None\<close>)
  when \<^verbatim>\<open>fopen\<close> fails and throws when the header's \<^verbatim>\<open>data_type\<close> is not the element
  type's. An exception leaves the function before \<^verbatim>\<open>fclose\<close>.
\<close>

definition load_saved_index ::
  "('idx, 'e, 'r, 'd, 'sp) env \<Rightarrow> 'e Matrix \<Rightarrow> string \<Rightarrow> 'd \<Rightarrow> 'idx world
     \<Rightarrow> (error + addr option) \<times> 'idx world" where
  "load_saved_index env dataset filename distance w =
     (case fopen filename ''rb'' w of
        (None, w1) \<Rightarrow> (Inr None, w1)
      | (Some fin, w1) \<Rightarrow>
          (case call_load_header env fin w1 of
             (Inl e, w2) \<Rightarrow> (Inl e, w2)
           | (Inr (header, fin1), w2) \<Rightarrow>
               if h_data_type header \<noteq> elem_type env then
                 (Inl (FLANNException
                   ''Datatype of saved index is different than of the one to be loaded.''), w2)
               else
                 (let params = Map.empty(''algorithm'' \<mapsto> any_algorithm (h_index_type header)) in
                  case call_create_index_by_type env (h_index_type header) dataset params distance w2 of
                    (Inl e, w3) \<Rightarrow> (Inl e, w3)
                  | (Inr nnIndex, w3) \<Rightarrow>
                      (case rewind fin1 w3 of
                         (fin2, w4) \<Rightarrow>
                           (case member_call M_loadIndex (Some nnIndex)
                                   (NNIndex_loadIndex env fin2) w4 of
                              (Inl e, w5) \<Rightarrow> (Inl e, w5)
                            | (Inr pos, w5) \<Rightarrow>
                                (Inr (Some nnIndex), fclose (fin2\<lparr>fpos := pos\<rparr>) w5))))))"

subsection \<open>Constructors, assignment, destructor\<close>

text \<open>
  \<^verbatim>\<open>MultiThreadIndex(const IndexParams& params, Distance distance = Distance())\<close>,
  lines 55 to 70. \<^verbatim>\<open>Matrix<ElementType> features;\<close> is the matrix without rows. A
  constructor that throws yields no object.
\<close>

definition MultiThreadIndex_params ::
  "('idx, 'e, 'r, 'd, 'sp) env \<Rightarrow> IndexParams \<Rightarrow> 'd \<Rightarrow> 'idx world
     \<Rightarrow> (error + MultiThreadIndex) \<times> 'idx world" where
  "MultiThreadIndex_params env params distance w =
     (case get_param_algorithm params ''algorithm'' of
        Inl e \<Rightarrow> (Inl e, w)
      | Inr index_type \<Rightarrow>
          (let features = [] in
           if index_type = FLANN_INDEX_SAVED then
             (case get_param_string params ''filename'' of
                Inl e \<Rightarrow> (Inl e, w)
              | Inr filename \<Rightarrow>
                  (case load_saved_index env features filename distance w of
                     (Inl e, w1) \<Rightarrow> (Inl e, w1)
                   | (Inr nnIndex, w1) \<Rightarrow>
                       (Inr \<lparr>m_nnIndex = nnIndex, m_loaded = True, m_index_params = params\<rparr>, w1)))
           else
             (case get_param_algorithm params ''algorithm'' of
                Inl e \<Rightarrow> (Inl e, w)
              | Inr index_type' \<Rightarrow>
                  (case call_create_index_by_type env index_type' features params distance w of
                     (Inl e, w1) \<Rightarrow> (Inl e, w1)
                   | (Inr nnIndex, w1) \<Rightarrow>
                       (Inr \<lparr>m_nnIndex = Some nnIndex, m_loaded = False, m_index_params = params\<rparr>,
                        w1)))))"

text \<open>
  \<^verbatim>\<open>MultiThreadIndex(const Matrix<ElementType>& features, const IndexParams& params,
  Distance distance = Distance())\<close>, lines 73 to 87.
\<close>

definition MultiThreadIndex_features ::
  "('idx, 'e, 'r, 'd, 'sp) env \<Rightarrow> 'e Matrix \<Rightarrow> IndexParams \<Rightarrow> 'd \<Rightarrow> 'idx world
     \<Rightarrow> (error + MultiThreadIndex) \<times> 'idx world" where
  "MultiThreadIndex_features env features params distance w =
     (case get_param_algorithm params ''algorithm'' of
        Inl e \<Rightarrow> (Inl e, w)
      | Inr index_type \<Rightarrow>
          if index_type = FLANN_INDEX_SAVED then
            (case get_param_string params ''filename'' of
               Inl e \<Rightarrow> (Inl e, w)
             | Inr filename \<Rightarrow>
                 (case load_saved_index env features filename distance w of
                    (Inl e, w1) \<Rightarrow> (Inl e, w1)
                  | (Inr nnIndex, w1) \<Rightarrow>
                      (Inr \<lparr>m_nnIndex = nnIndex, m_loaded = True, m_index_params = params\<rparr>, w1)))
          else
            (case get_param_algorithm params ''algorithm'' of
               Inl e \<Rightarrow> (Inl e, w)
             | Inr index_type' \<Rightarrow>
                 (case call_create_index_by_type env index_type' features params distance w of
                    (Inl e, w1) \<Rightarrow> (Inl e, w1)
                  | (Inr nnIndex, w1) \<Rightarrow>
                      (Inr \<lparr>m_nnIndex = Some nnIndex, m_loaded = False, m_index_params = params\<rparr>,
                       w1))))"

text \<open>
  \<^verbatim>\<open>MultiThreadIndex(const MultiThreadIndex& other)
    : loaded_(other.loaded_), index_params_(other.index_params_)
  { nnIndex_ = other.nnIndex_->clone(); }\<close>
\<close>

definition MultiThreadIndex_copy ::
  "('idx, 'e, 'r, 'd, 'sp) env \<Rightarrow> MultiThreadIndex \<Rightarrow> 'idx world
     \<Rightarrow> (error + MultiThreadIndex) \<times> 'idx world" where
  "MultiThreadIndex_copy env other w =
     (case call_clone env (m_nnIndex other) w of
        (Inl e, w1) \<Rightarrow> (Inl e, w1)
      | (Inr a, w1) \<Rightarrow>
          (Inr \<lparr>m_nnIndex = Some a, m_loaded = m_loaded other,
                m_index_params = m_index_params other\<rparr>, w1))"

text \<open>\<^verbatim>\<open>virtual ~MultiThreadIndex() { delete nnIndex_; }\<close>\<close>

definition destructor :: "MultiThreadIndex \<Rightarrow> 'idx world \<Rightarrow> (error + unit) \<times> 'idx world" where
  "destructor this w = call_delete (m_nnIndex this) w"

text \<open>
  \<^verbatim>\<open>void swap(MultiThreadIndex& other)\<close>, lines 364 to 369: three \<^verbatim>\<open>std::swap\<close>s. The
  result is the pair of \<^verbatim>\<open>*this\<close> and \<^verbatim>\<open>other\<close> afterwards.
\<close>

definition swap :: "MultiThreadIndex \<Rightarrow> MultiThreadIndex \<Rightarrow> MultiThreadIndex \<times> MultiThreadIndex" where
  "swap this other =
     (\<lparr>m_nnIndex = m_nnIndex other, m_loaded = m_loaded other,
       m_index_params = m_index_params other\<rparr>,
      \<lparr>m_nnIndex = m_nnIndex this, m_loaded = m_loaded this,
       m_index_params = m_index_params this\<rparr>)"

text \<open>
  \<^verbatim>\<open>MultiThreadIndex& operator=(MultiThreadIndex other) { this->swap(other); return *this; }\<close>

  The parameter is taken by value: it is copy-constructed from the right-hand side
  \<open>rhs\<close> before the body runs, and destroyed after it. The result holds \<^verbatim>\<open>*this\<close> as the
  call leaves it.
\<close>

definition operator_assign ::
  "('idx, 'e, 'r, 'd, 'sp) env \<Rightarrow> MultiThreadIndex \<Rightarrow> MultiThreadIndex \<Rightarrow> 'idx world
     \<Rightarrow> (error + unit) \<times> MultiThreadIndex \<times> 'idx world" where
  "operator_assign env rhs this w =
     (case MultiThreadIndex_copy env rhs w of
        (Inl e, w1) \<Rightarrow> (Inl e, this, w1)
      | (Inr other, w1) \<Rightarrow>
          (case swap this other of
             (this', other') \<Rightarrow>
               (case destructor other' w1 of
                  (r, w2) \<Rightarrow> (r, this', w2))))"

subsection \<open>Member functions\<close>

text \<open>
  Each member function takes its arguments, then \<^verbatim>\<open>*this\<close> and the world, and returns
  what it returns or throws, \<^verbatim>\<open>*this\<close> as it leaves it, and the world as it leaves it.
\<close>

definition forward ::
  "MultiThreadIndex \<Rightarrow> (error + 'a) \<times> 'idx world \<Rightarrow> (error + 'a) \<times> MultiThreadIndex \<times> 'idx world" where
  "forward this rw = (case rw of (r, w) \<Rightarrow> (r, this, w))"

text \<open>\<^verbatim>\<open>void buildIndex() { if (!loaded_) { nnIndex_->buildIndex(); } }\<close>\<close>

definition buildIndex ::
  "('idx, 'e, 'r, 'd, 'sp) env \<Rightarrow> MultiThreadIndex \<Rightarrow> 'idx world
     \<Rightarrow> (error + unit) \<times> MultiThreadIndex \<times> 'idx world" where
  "buildIndex env this w =
     (if \<not> m_loaded this then
        forward this (member_call M_buildIndex (m_nnIndex this) (NNIndex_buildIndex env) w)
      else (Inr (), this, w))"

text \<open>\<^verbatim>\<open>void buildIndex(const Matrix<ElementType>& points) { nnIndex_->buildIndex(points); }\<close>\<close>

definition buildIndex_points ::
  "('idx, 'e, 'r, 'd, 'sp) env \<Rightarrow> 'e Matrix \<Rightarrow> MultiThreadIndex \<Rightarrow> 'idx world
     \<Rightarrow> (error + unit) \<times> MultiThreadIndex \<times> 'idx world" where
  "buildIndex_points env points this w =
     forward this
       (member_call M_buildIndex_points (m_nnIndex this) (NNIndex_buildIndex_points env points) w)"

text \<open>
  \<^verbatim>\<open>void addPoints(const Matrix<ElementType>& points, float rebuild_threshold = 2)
  { nnIndex_->addPoints(points, rebuild_threshold); }\<close>
\<close>

definition addPoints ::
  "('idx, 'e, 'r, 'd, 'sp) env \<Rightarrow> 'e Matrix \<Rightarrow> real \<Rightarrow> MultiThreadIndex \<Rightarrow> 'idx world
     \<Rightarrow> (error + unit) \<times> MultiThreadIndex \<times> 'idx world" where
  "addPoints env points rebuild_threshold this w =
     forward this
       (member_call M_addPoints (m_nnIndex this)
          (NNIndex_addPoints env points rebuild_threshold) w)"

definition addPoints_default ::
  "('idx, 'e, 'r, 'd, 'sp) env \<Rightarrow> 'e Matrix \<Rightarrow> MultiThreadIndex \<Rightarrow> 'idx world
     \<Rightarrow> (error + unit) \<times> MultiThreadIndex \<times> 'idx world" where
  "addPoints_default env points this w = addPoints env points 2 this w"

text \<open>\<^verbatim>\<open>void removePoint(size_t point_id) { nnIndex_->removePoint(point_id); }\<close>\<close>

definition removePoint ::
  "('idx, 'e, 'r, 'd, 'sp) env \<Rightarrow> nat \<Rightarrow> MultiThreadIndex \<Rightarrow> 'idx world
     \<Rightarrow> (error + unit) \<times> MultiThreadIndex \<times> 'idx world" where
  "removePoint env point_id this w =
     forward this
       (member_call M_removePoint (m_nnIndex this) (NNIndex_removePoint env point_id) w)"

text \<open>\<^verbatim>\<open>ElementType* getPoint(size_t point_id) { return nnIndex_->getPoint(point_id); }\<close>\<close>

definition getPoint ::
  "('idx, 'e, 'r, 'd, 'sp) env \<Rightarrow> nat \<Rightarrow> MultiThreadIndex \<Rightarrow> 'idx world
     \<Rightarrow> (error + 'e list option) \<times> MultiThreadIndex \<times> 'idx world" where
  "getPoint env point_id this w =
     forward this (member_call M_getPoint (m_nnIndex this) (NNIndex_getPoint env point_id) w)"

text \<open>
  \<^verbatim>\<open>void save(std::string filename)
  { FILE* fout = fopen(filename.c_str(), "wb");
    if (fout == NULL) { throw FLANNException("Cannot open file"); }
    nnIndex_->saveIndex(fout);
    fclose(fout); }\<close>
\<close>

definition save ::
  "('idx, 'e, 'r, 'd, 'sp) env \<Rightarrow> string \<Rightarrow> MultiThreadIndex \<Rightarrow> 'idx world
     \<Rightarrow> (error + unit) \<times> MultiThreadIndex \<times> 'idx world" where
  "save env filename this w =
     (case fopen filename ''wb'' w of
        (None, w1) \<Rightarrow> (Inl (FLANNException ''Cannot open file''), this, w1)
      | (Some fout, w1) \<Rightarrow>
          (case member_call M_saveIndex (m_nnIndex this) (NNIndex_saveIndex env fout) w1 of
             (Inl e, w2) \<Rightarrow> (Inl e, this, w2)
           | (Inr (bs, pos), w2) \<Rightarrow>
               (Inr (), this, fclose (fout\<lparr>fdata := bs, fpos := pos\<rparr>) w2)))"

text \<open>The accessors, lines 162 to 198, each \<^verbatim>\<open>return nnIndex_->f();\<close>\<close>

definition veclen ::
  "('idx, 'e, 'r, 'd, 'sp) env \<Rightarrow> MultiThreadIndex \<Rightarrow> 'idx world
     \<Rightarrow> (error + nat) \<times> MultiThreadIndex \<times> 'idx world" where
  "veclen env this w =
     forward this (const_member_call M_veclen (m_nnIndex this) (NNIndex_veclen env) w)"

definition size_index ::
  "('idx, 'e, 'r, 'd, 'sp) env \<Rightarrow> MultiThreadIndex \<Rightarrow> 'idx world
     \<Rightarrow> (error + nat) \<times> MultiThreadIndex \<times> 'idx world" where
  "size_index env this w =
     forward this (const_member_call M_size (m_nnIndex this) (NNIndex_size env) w)"

definition getType ::
  "('idx, 'e, 'r, 'd, 'sp) env \<Rightarrow> MultiThreadIndex \<Rightarrow> 'idx world
     \<Rightarrow> (error + flann_algorithm_t) \<times> MultiThreadIndex \<times> 'idx world" where
  "getType env this w =
     forward this (const_member_call M_getType (m_nnIndex this) (NNIndex_getType env) w)"

definition usedMemory ::
  "('idx, 'e, 'r, 'd, 'sp) env \<Rightarrow> MultiThreadIndex \<Rightarrow> 'idx world
     \<Rightarrow> (error + int) \<times> MultiThreadIndex \<times> 'idx world" where
  "usedMemory env this w =
     forward this (const_member_call M_usedMemory (m_nnIndex this) (NNIndex_usedMemory env) w)"

definition getParameters ::
  "('idx, 'e, 'r, 'd, 'sp) env \<Rightarrow> MultiThreadIndex \<Rightarrow> 'idx world
     \<Rightarrow> (error + IndexParams) \<times> MultiThreadIndex \<times> 'idx world" where
  "getParameters env this w =
     forward this
       (const_member_call M_getParameters (m_nnIndex this) (NNIndex_getParameters env) w)"

text \<open>
  The four overloads of \<^verbatim>\<open>knnSearch\<close>, lines 208 to 268, in the order of the source:
  each \<^verbatim>\<open>return nnIndex_->knnSearch(queries, indices, dists, knn, params);\<close>
\<close>

definition knnSearch_Matrix_size_t ::
  "('idx, 'e, 'r, 'd, 'sp) env \<Rightarrow> 'e Matrix \<Rightarrow> nat Matrix \<Rightarrow> 'r Matrix \<Rightarrow> nat \<Rightarrow> 'sp
     \<Rightarrow> MultiThreadIndex \<Rightarrow> 'idx world
     \<Rightarrow> (error + int \<times> nat Matrix \<times> 'r Matrix) \<times> MultiThreadIndex \<times> 'idx world" where
  "knnSearch_Matrix_size_t env queries indices dists knn params this w =
     forward this
       (const_member_call M_knnSearch_Matrix_size_t (m_nnIndex this)
          (NNIndex_knnSearch_Matrix_size_t env queries indices dists knn params) w)"

definition knnSearch_Matrix_int ::
  "('idx, 'e, 'r, 'd, 'sp) env \<Rightarrow> 'e Matrix \<Rightarrow> int Matrix \<Rightarrow> 'r Matrix \<Rightarrow> nat \<Rightarrow> 'sp
     \<Rightarrow> MultiThreadIndex \<Rightarrow> 'idx world
     \<Rightarrow> (error + int \<times> int Matrix \<times> 'r Matrix) \<times> MultiThreadIndex \<times> 'idx world" where
  "knnSearch_Matrix_int env queries indices dists knn params this w =
     forward this
       (const_member_call M_knnSearch_Matrix_int (m_nnIndex this)
          (NNIndex_knnSearch_Matrix_int env queries indices dists knn params) w)"

definition knnSearch_vector_size_t ::
  "('idx, 'e, 'r, 'd, 'sp) env \<Rightarrow> 'e Matrix \<Rightarrow> nat list list \<Rightarrow> 'r list list \<Rightarrow> nat \<Rightarrow> 'sp
     \<Rightarrow> MultiThreadIndex \<Rightarrow> 'idx world
     \<Rightarrow> (error + int \<times> nat list list \<times> 'r list list) \<times> MultiThreadIndex \<times> 'idx world" where
  "knnSearch_vector_size_t env queries indices dists knn params this w =
     forward this
       (const_member_call M_knnSearch_vector_size_t (m_nnIndex this)
          (NNIndex_knnSearch_vector_size_t env queries indices dists knn params) w)"

definition knnSearch_vector_int ::
  "('idx, 'e, 'r, 'd, 'sp) env \<Rightarrow> 'e Matrix \<Rightarrow> int list list \<Rightarrow> 'r list list \<Rightarrow> nat \<Rightarrow> 'sp
     \<Rightarrow> MultiThreadIndex \<Rightarrow> 'idx world
     \<Rightarrow> (error + int \<times> int list list \<times> 'r list list) \<times> MultiThreadIndex \<times> 'idx world" where
  "knnSearch_vector_int env queries indices dists knn params this w =
     forward this
       (const_member_call M_knnSearch_vector_int (m_nnIndex this)
          (NNIndex_knnSearch_vector_int env queries indices dists knn params) w)"

text \<open>
  The four overloads of \<^verbatim>\<open>radiusSearch\<close>, lines 279 to 340, in the order of the source:
  each \<^verbatim>\<open>return nnIndex_->radiusSearch(queries, indices, dists, radius, params);\<close>
\<close>

definition radiusSearch_Matrix_size_t ::
  "('idx, 'e, 'r, 'd, 'sp) env \<Rightarrow> 'e Matrix \<Rightarrow> nat Matrix \<Rightarrow> 'r Matrix \<Rightarrow> real \<Rightarrow> 'sp
     \<Rightarrow> MultiThreadIndex \<Rightarrow> 'idx world
     \<Rightarrow> (error + int \<times> nat Matrix \<times> 'r Matrix) \<times> MultiThreadIndex \<times> 'idx world" where
  "radiusSearch_Matrix_size_t env queries indices dists radius params this w =
     forward this
       (const_member_call M_radiusSearch_Matrix_size_t (m_nnIndex this)
          (NNIndex_radiusSearch_Matrix_size_t env queries indices dists radius params) w)"

definition radiusSearch_Matrix_int ::
  "('idx, 'e, 'r, 'd, 'sp) env \<Rightarrow> 'e Matrix \<Rightarrow> int Matrix \<Rightarrow> 'r Matrix \<Rightarrow> real \<Rightarrow> 'sp
     \<Rightarrow> MultiThreadIndex \<Rightarrow> 'idx world
     \<Rightarrow> (error + int \<times> int Matrix \<times> 'r Matrix) \<times> MultiThreadIndex \<times> 'idx world" where
  "radiusSearch_Matrix_int env queries indices dists radius params this w =
     forward this
       (const_member_call M_radiusSearch_Matrix_int (m_nnIndex this)
          (NNIndex_radiusSearch_Matrix_int env queries indices dists radius params) w)"

definition radiusSearch_vector_size_t ::
  "('idx, 'e, 'r, 'd, 'sp) env \<Rightarrow> 'e Matrix \<Rightarrow> nat list list \<Rightarrow> 'r list list \<Rightarrow> real \<Rightarrow> 'sp
     \<Rightarrow> MultiThreadIndex \<Rightarrow> 'idx world
     \<Rightarrow> (error + int \<times> nat list list \<times> 'r list list) \<times> MultiThreadIndex \<times> 'idx world" where
  "radiusSearch_vector_size_t env queries indices dists radius params this w =
     forward this
       (const_member_call M_radiusSearch_vector_size_t (m_nnIndex this)
          (NNIndex_radiusSearch_vector_size_t env queries indices dists radius params) w)"

definition radiusSearch_vector_int ::
  "('idx, 'e, 'r, 'd, 'sp) env \<Rightarrow> 'e Matrix \<Rightarrow> int list list \<Rightarrow> 'r list list \<Rightarrow> real \<Rightarrow> 'sp
     \<Rightarrow> MultiThreadIndex \<Rightarrow> 'idx world
     \<Rightarrow> (error + int \<times> int list list \<times> 'r list list) \<times> MultiThreadIndex \<times> 'idx world" where
  "radiusSearch_vector_int env queries indices dists radius params this w =
     forward this
       (const_member_call M_radiusSearch_vector_int (m_nnIndex this)
          (NNIndex_radiusSearch_vector_int env queries indices dists radius params) w)"

subsection \<open>Sequences of member calls\<close>

text \<open>
  A caller's use of one facade after its construction: any sequence of calls of the
  public member functions other than the copy constructor, the assignment and the
  destructor. A call that throws leaves the object and the world as the exception
  left them, and the caller goes on.
\<close>

datatype ('e, 'r, 'sp) member_op =
    Op_buildIndex
  | Op_buildIndex_points "'e Matrix"
  | Op_addPoints "'e Matrix" real
  | Op_removePoint nat
  | Op_getPoint nat
  | Op_save string
  | Op_veclen | Op_size | Op_getType | Op_usedMemory | Op_getParameters
  | Op_knnSearch_Matrix_size_t "'e Matrix" "nat Matrix" "'r Matrix" nat 'sp
  | Op_knnSearch_Matrix_int "'e Matrix" "int Matrix" "'r Matrix" nat 'sp
  | Op_knnSearch_vector_size_t "'e Matrix" "nat list list" "'r list list" nat 'sp
  | Op_knnSearch_vector_int "'e Matrix" "int list list" "'r list list" nat 'sp
  | Op_radiusSearch_Matrix_size_t "'e Matrix" "nat Matrix" "'r Matrix" real 'sp
  | Op_radiusSearch_Matrix_int "'e Matrix" "int Matrix" "'r Matrix" real 'sp
  | Op_radiusSearch_vector_size_t "'e Matrix" "nat list list" "'r list list" real 'sp
  | Op_radiusSearch_vector_int "'e Matrix" "int list list" "'r list list" real 'sp

fun run_op ::
  "('idx, 'e, 'r, 'd, 'sp) env \<Rightarrow> ('e, 'r, 'sp) member_op \<Rightarrow> MultiThreadIndex \<times> 'idx world
     \<Rightarrow> MultiThreadIndex \<times> 'idx world" where
  "run_op env Op_buildIndex (this, w) = snd (buildIndex env this w)"
| "run_op env (Op_buildIndex_points points) (this, w) = snd (buildIndex_points env points this w)"
| "run_op env (Op_addPoints points t) (this, w) = snd (addPoints env points t this w)"
| "run_op env (Op_removePoint i) (this, w) = snd (removePoint env i this w)"
| "run_op env (Op_getPoint i) (this, w) = snd (getPoint env i this w)"
| "run_op env (Op_save filename) (this, w) = snd (save env filename this w)"
| "run_op env Op_veclen (this, w) = snd (veclen env this w)"
| "run_op env Op_size (this, w) = snd (size_index env this w)"
| "run_op env Op_getType (this, w) = snd (getType env this w)"
| "run_op env Op_usedMemory (this, w) = snd (usedMemory env this w)"
| "run_op env Op_getParameters (this, w) = snd (getParameters env this w)"
| "run_op env (Op_knnSearch_Matrix_size_t q i d k sp) (this, w) =
     snd (knnSearch_Matrix_size_t env q i d k sp this w)"
| "run_op env (Op_knnSearch_Matrix_int q i d k sp) (this, w) =
     snd (knnSearch_Matrix_int env q i d k sp this w)"
| "run_op env (Op_knnSearch_vector_size_t q i d k sp) (this, w) =
     snd (knnSearch_vector_size_t env q i d k sp this w)"
| "run_op env (Op_knnSearch_vector_int q i d k sp) (this, w) =
     snd (knnSearch_vector_int env q i d k sp this w)"
| "run_op env (Op_radiusSearch_Matrix_size_t q i d r sp) (this, w) =
     snd (radiusSearch_Matrix_size_t env q i d r sp this w)"
| "run_op env (Op_radiusSearch_Matrix_int q i d r sp) (this, w) =
     snd (radiusSearch_Matrix_int env q i d r sp this w)"
| "run_op env (Op_radiusSearch_vector_size_t q i d r sp) (this, w) =
     snd (radiusSearch_vector_size_t env q i d r sp this w)"
| "run_op env (Op_radiusSearch_vector_int q i d r sp) (this, w) =
     snd (radiusSearch_vector_int env q i d r sp this w)"

fun run_ops ::
  "('idx, 'e, 'r, 'd, 'sp) env \<Rightarrow> ('e, 'r, 'sp) member_op list \<Rightarrow> MultiThreadIndex \<times> 'idx world
     \<Rightarrow> MultiThreadIndex \<times> 'idx world" where
  "run_ops env [] s = s"
| "run_ops env (x # xs) s = run_ops env xs (run_op env x s)"

subsection \<open>The linear algorithm over bytes\<close>

text \<open>
  Modelled from the spec: the concrete algorithms (\<^verbatim>\<open>algorithms/vs_all_indices.h\<close>) and
  their serializers (\<^verbatim>\<open>util/vs_saving.h\<close>) are missing from the sources. This is the
  spec's "linear (or equivalent trivial exact algorithm)": it holds its points and
  answers a query by sorting all of them by distance, here over vectors of
  \<^verbatim>\<open>unsigned char\<close> with the Manhattan distance, ties in the order of the points. Its
  file is as the spec lays it out, "fixed header: element-type tag, algorithm tag, plus
  any algorithm-declared structural metadata, followed by algorithm-defined payload
  bytes": one byte for each tag, the numbers of rows and of columns as \<^verbatim>\<open>size_t\<close> (eight
  bytes, least significant first), then the rows. \<^verbatim>\<open>saveIndex\<close> writes all of it, "its
  own header fields and its data, in one continuous stream"; \<^verbatim>\<open>loadIndex\<close> "re-reads the
  header itself" and takes its points from the file ("point data is supplied by the
  file, not by the caller"). It is also the instance of the parameters on which the
  theorems are exercised.
\<close>

record linear_index =
  li_points :: "byte Matrix"
  li_params :: IndexParams

definition FLANN_INDEX_LINEAR :: flann_algorithm_t where
  "FLANN_INDEX_LINEAR = FLANN_INDEX_CONCRETE 0"

definition FLANN_UINT8 :: flann_datatype_t where
  "FLANN_UINT8 = 4"

fun rows_of :: "nat \<Rightarrow> nat \<Rightarrow> 'a list \<Rightarrow> 'a list list" where
  "rows_of 0 c bs = []"
| "rows_of (Suc r) c bs = take c bs # rows_of r c (drop c bs)"

fun le_bytes :: "nat \<Rightarrow> nat \<Rightarrow> byte list" where
  "le_bytes 0 n = []"
| "le_bytes (Suc k) n = word_of_nat (n mod 256) # le_bytes k (n div 256)"

fun le_nat :: "byte list \<Rightarrow> nat" where
  "le_nat [] = 0"
| "le_nat (b # bs) = unat b + 256 * le_nat bs"

definition cols_of :: "'a list list \<Rightarrow> nat" where
  "cols_of pts = (case pts of [] \<Rightarrow> 0 | p # ps \<Rightarrow> length p)"

definition linear_bytes :: "linear_index \<Rightarrow> byte list" where
  "linear_bytes obj =
     [word_of_int FLANN_UINT8, 0]
     @ le_bytes 8 (length (li_points obj)) @ le_bytes 8 (cols_of (li_points obj))
     @ concat (li_points obj)"

definition linear_load_header :: "FILE \<Rightarrow> error + IndexHeader \<times> nat" where
  "linear_load_header stream =
     (case drop (fpos stream) (fdata stream) of
        t # a # rest \<Rightarrow>
          Inr (\<lparr>h_data_type = uint t, h_index_type = FLANN_INDEX_CONCRETE (unat a)\<rparr>,
               fpos stream + 2)
      | _ \<Rightarrow> Inl (FLANNException ''Invalid index file, cannot read''))"

definition linear_saveIndex ::
  "FILE \<Rightarrow> linear_index \<Rightarrow> (error + byte list \<times> nat) \<times> linear_index" where
  "linear_saveIndex stream obj =
     (Inr (take (fpos stream) (fdata stream) @ linear_bytes obj,
           fpos stream + length (linear_bytes obj)), obj)"

definition linear_loadIndex :: "FILE \<Rightarrow> linear_index \<Rightarrow> (error + nat) \<times> linear_index" where
  "linear_loadIndex stream obj =
     (case drop (fpos stream) (fdata stream) of
        t # a # rest \<Rightarrow>
          (let r = le_nat (take 8 rest); c = le_nat (take 8 (drop 8 rest));
               payload = drop 16 rest
           in if length rest < 16 \<or> length payload < r * c
              then (Inl (FLANNException ''Invalid index file, cannot read''), obj)
              else (Inr (fpos stream + 18 + r * c),
                    obj\<lparr>li_points := rows_of r c payload\<rparr>))
      | _ \<Rightarrow> (Inl (FLANNException ''Invalid index file, cannot read''), obj))"

definition manhattan :: "byte list \<Rightarrow> byte list \<Rightarrow> nat" where
  "manhattan p q =
     sum_list (map (\<lambda>(a, b). if unat a \<le> unat b then unat b - unat a else unat a - unat b)
       (zip p q))"

definition linear_neighbours :: "linear_index \<Rightarrow> byte list \<Rightarrow> (nat \<times> nat) list" where
  "linear_neighbours obj q =
     sort_key fst (map (\<lambda>(i, p). (manhattan q p, i)) (enumerate 0 (li_points obj)))"

definition linear_knn :: "linear_index \<Rightarrow> byte Matrix \<Rightarrow> nat \<Rightarrow> (nat \<times> nat) list list" where
  "linear_knn obj queries knn = map (\<lambda>q. take knn (linear_neighbours obj q)) queries"

definition linear_radius :: "linear_index \<Rightarrow> byte Matrix \<Rightarrow> real \<Rightarrow> (nat \<times> nat) list list" where
  "linear_radius obj queries radius =
     map (\<lambda>q. filter (\<lambda>(d, i). real d \<le> radius) (linear_neighbours obj q)) queries"

definition found :: "(nat \<Rightarrow> 'i) \<Rightarrow> (nat \<times> nat) list list \<Rightarrow> error + int \<times> 'i list list \<times> nat list list" where
  "found conv res =
     Inr (int (length (concat res)), map (map (conv \<circ> snd)) res, map (map fst) res)"

definition linear_env :: "(linear_index, byte, nat, unit, unit) env" where
  "linear_env =
     \<lparr>elem_type = FLANN_UINT8,
      load_header = linear_load_header,
      create_index_by_type = (\<lambda>t dataset params distance.
        if t = FLANN_INDEX_LINEAR then Inr \<lparr>li_points = dataset, li_params = params\<rparr>
        else Inl (FLANNException ''Unknown index type'')),
      NNIndex_clone = (\<lambda>obj. Inr obj),
      NNIndex_buildIndex = (\<lambda>obj. (Inr (), obj)),
      NNIndex_buildIndex_points = (\<lambda>points obj. (Inr (), obj\<lparr>li_points := points\<rparr>)),
      NNIndex_addPoints = (\<lambda>points t obj. (Inr (), obj\<lparr>li_points := li_points obj @ points\<rparr>)),
      NNIndex_removePoint = (\<lambda>i obj.
        (Inr (), obj\<lparr>li_points := take i (li_points obj) @ drop (Suc i) (li_points obj)\<rparr>)),
      NNIndex_getPoint = (\<lambda>i obj.
        (Inr (if i < length (li_points obj) then Some (li_points obj ! i) else None), obj)),
      NNIndex_saveIndex = linear_saveIndex,
      NNIndex_loadIndex = linear_loadIndex,
      NNIndex_veclen = (\<lambda>obj. Inr (cols_of (li_points obj))),
      NNIndex_size = (\<lambda>obj. Inr (length (li_points obj))),
      NNIndex_getType = (\<lambda>obj. Inr FLANN_INDEX_LINEAR),
      NNIndex_usedMemory = (\<lambda>obj. Inr (int (length (concat (li_points obj))))),
      NNIndex_getParameters = (\<lambda>obj. Inr (li_params obj)),
      NNIndex_knnSearch_Matrix_size_t = (\<lambda>q i d k sp obj. found id (linear_knn obj q k)),
      NNIndex_knnSearch_Matrix_int = (\<lambda>q i d k sp obj. found int (linear_knn obj q k)),
      NNIndex_knnSearch_vector_size_t = (\<lambda>q i d k sp obj. found id (linear_knn obj q k)),
      NNIndex_knnSearch_vector_int = (\<lambda>q i d k sp obj. found int (linear_knn obj q k)),
      NNIndex_radiusSearch_Matrix_size_t = (\<lambda>q i d r sp obj. found id (linear_radius obj q r)),
      NNIndex_radiusSearch_Matrix_int = (\<lambda>q i d r sp obj. found int (linear_radius obj q r)),
      NNIndex_radiusSearch_vector_size_t = (\<lambda>q i d r sp obj. found id (linear_radius obj q r)),
      NNIndex_radiusSearch_vector_int = (\<lambda>q i d r sp obj. found int (linear_radius obj q r))\<rparr>"

text \<open>
  A world without files, where every name but \<open>/readonly/idx.bin\<close> can be written,
  with two linear indices: at address \<open>0\<close> the points of the spec's scenario, \<open>(0,0)\<close>,
  \<open>(1,0)\<close>, \<open>(0,1)\<close> and \<open>(5,5)\<close>, owned by a facade that was built; at address \<open>1\<close> the
  point \<open>(9,9)\<close>, owned by a facade that was restored.
\<close>

definition four_points :: "byte Matrix" where
  "four_points = [[0, 0], [1, 0], [0, 1], [5, 5]]"

definition linear_params :: IndexParams where
  "linear_params = Map.empty(''algorithm'' \<mapsto> any_algorithm FLANN_INDEX_LINEAR)"

definition four_index :: linear_index where
  "four_index = \<lparr>li_points = four_points, li_params = linear_params\<rparr>"

definition one_index :: linear_index where
  "one_index = \<lparr>li_points = [[9, 9]], li_params = linear_params\<rparr>"

definition linear_world :: "linear_index world" where
  "linear_world =
     \<lparr>heap = [Some four_index, Some one_index], files = Map.empty,
      writable = (\<lambda>name. name \<noteq> ''/readonly/idx.bin''), calls = []\<rparr>"

definition built_facade :: MultiThreadIndex where
  "built_facade = \<lparr>m_nnIndex = Some 0, m_loaded = False, m_index_params = linear_params\<rparr>"

definition restored_facade :: MultiThreadIndex where
  "restored_facade =
     \<lparr>m_nnIndex = Some 1, m_loaded = True, m_index_params = SavedIndexParams ''idx.bin''\<rparr>"

text \<open>
  The same world with two files: \<open>idx.bin\<close>, as the linear index at address \<open>0\<close> writes
  itself, and \<open>float.bin\<close>, whose header carries another element type tag.
\<close>


text \<open>
  The linear index, but its \<^verbatim>\<open>loadIndex\<close> keeps the points the instance was created over
  and adds those of the file.
\<close>

definition merging_loadIndex :: "FILE \<Rightarrow> linear_index \<Rightarrow> (error + nat) \<times> linear_index" where
  "merging_loadIndex stream obj =
     (case linear_loadIndex stream obj of
        (Inl e, obj') \<Rightarrow> (Inl e, obj')
      | (Inr pos, obj') \<Rightarrow> (Inr pos, obj'\<lparr>li_points := li_points obj @ li_points obj'\<rparr>))"

definition merging_env :: "(linear_index, byte, nat, unit, unit) env" where
  "merging_env = linear_env\<lparr>NNIndex_loadIndex := merging_loadIndex\<rparr>"

definition saved_world :: "linear_index world" where
  "saved_world =
     linear_world\<lparr>files :=
       [''idx.bin'' \<mapsto> [4, 0, 4, 0, 0, 0, 0, 0, 0, 0, 2, 0, 0, 0, 0, 0, 0, 0, 0, 0, 1, 0, 0, 1, 5, 5], ''float.bin'' \<mapsto> [8, 0, 1, 1, 7]]\<rparr>"

text \<open>The linear index, but its \<^verbatim>\<open>clone()\<close> throws.\<close>

definition no_clone_env :: "(linear_index, byte, nat, unit, unit) env" where
  "no_clone_env = linear_env\<lparr>NNIndex_clone := (\<lambda>obj. Inl (FLANNException ''std::bad_alloc''))\<rparr>"

section \<open>Properties\<close>

subsection \<open>Evaluating the model\<close>

lemmas run_defs =
  member_call_def const_member_call_def deref_def logged_def forward_def
  fopen_def fclose_def rewind_def new_def call_load_header_def call_create_index_by_type_def
  call_clone_def call_delete_def

lemma rows_of_numeral:
  "rows_of (numeral n) c bs = take c bs # rows_of (pred_numeral n) c (drop c bs)"
  by (simp add: numeral_eq_Suc)

lemma le_bytes_numeral:
  "le_bytes (numeral k) n = word_of_nat (n mod 256) # le_bytes (pred_numeral k) (n div 256)"
  using le_bytes.simps(2) [of "pred_numeral k" n] by (simp only: numeral_eq_Suc [symmetric])

lemmas linear_defs =
  linear_env_def linear_world_def four_index_def one_index_def four_points_def linear_params_def
  built_facade_def restored_facade_def FLANN_INDEX_LINEAR_def FLANN_UINT8_def
  linear_bytes_def linear_load_header_def linear_saveIndex_def linear_loadIndex_def
  cols_of_def Let_def rows_of_numeral le_bytes_numeral

lemmas ctor_defs =
  MultiThreadIndex_params_def MultiThreadIndex_features_def load_saved_index_def
  SavedIndexParams_def get_param_algorithm_def get_param_string_def saved_world_def

subsection \<open>Pointers and calls through them\<close>

lemma deref_Some_less: "deref h a = Some obj \<Longrightarrow> a < length h"
  by (simp add: deref_def split: if_splits)

lemma deref_update_other: "a \<noteq> b \<Longrightarrow> deref (h[b := x]) a = deref h a"
  by (simp add: deref_def)

lemma deref_append_old: "deref h a = Some obj \<Longrightarrow> deref (h @ ys) a = Some obj"
  by (simp add: deref_def nth_append split: if_splits)

lemma deref_append_new: "deref (h @ [x]) (length h) = x"
  by (simp add: deref_def)

lemma update_same_object: "deref h a = Some obj \<Longrightarrow> h[a := Some obj] = h"
  by (simp add: deref_def list_update_same_conv split: if_splits)

lemma member_call_valid:
  "deref (heap w) a = Some obj \<Longrightarrow>
   member_call m (Some a) f w =
     (fst (f obj), w\<lparr>heap := (heap w)[a := Some (snd (f obj))],
                     calls := calls w @ [Call_member a m]\<rparr>)"
  by (simp add: member_call_def logged_def split: prod.splits)

lemma const_member_call_valid:
  "deref (heap w) a = Some obj \<Longrightarrow>
   const_member_call m (Some a) f w = (f obj, w\<lparr>calls := calls w @ [Call_member a m]\<rparr>)"
  by (simp add: const_member_call_def member_call_valid update_same_object)

lemma member_call_null: "member_call m None f w = (Inl Undefined_behaviour, w)"
  by (simp add: member_call_def)

lemma member_call_heap_other:
  "a \<noteq> b \<Longrightarrow> deref (heap (snd (member_call m (Some b) f w))) a = deref (heap w) a"
  by (auto simp: member_call_def logged_def deref_update_other split: option.splits prod.splits)

subsection \<open>Member functions leave the data members alone\<close>

lemma forward_this: "fst (snd (forward this rw)) = this"
  by (cases rw) (simp add: forward_def)

lemma buildIndex_this: "fst (snd (buildIndex env this w)) = this"
  by (simp add: buildIndex_def forward_this)

lemma save_this: "fst (snd (save env filename this w)) = this"
  by (simp add: save_def split: prod.splits option.splits sum.splits)

lemma run_op_this: "fst (run_op env x (this, w)) = this"
  by (cases x)
     (simp_all add: buildIndex_this save_this forward_this buildIndex_points_def addPoints_def
        removePoint_def getPoint_def veclen_def size_index_def getType_def usedMemory_def
        getParameters_def knnSearch_Matrix_size_t_def knnSearch_Matrix_int_def
        knnSearch_vector_size_t_def knnSearch_vector_int_def radiusSearch_Matrix_size_t_def
        radiusSearch_Matrix_int_def radiusSearch_vector_size_t_def radiusSearch_vector_int_def)

lemma run_ops_this: "fst (run_ops env xs (this, w)) = this"
proof (induction xs arbitrary: w)
  case Nil
  show ?case by simp
next
  case (Cons x xs)
  obtain w' where step: "run_op env x (this, w) = (this, w')"
    using run_op_this [of env x this w] by (cases "run_op env x (this, w)") simp
  show ?case using Cons.IH [of w'] by (simp add: step)
qed

subsection \<open>The paths through load\_saved\_index and the constructors\<close>

lemma load_saved_index_unreadable:
  "files w filename = None \<Longrightarrow>
   load_saved_index env dataset filename distance w =
     (Inr None, w\<lparr>calls := calls w @ [Call_fopen filename ''rb'']\<rparr>)"
  by (simp add: load_saved_index_def fopen_def logged_def)

lemma load_saved_index_mismatch:
  assumes "files w filename = Some bs"
    and "load_header env \<lparr>fname = filename, fwrite = False, fdata = bs, fpos = 0\<rparr>
           = Inr (header, pos)"
    and "h_data_type header \<noteq> elem_type env"
  shows "load_saved_index env dataset filename distance w =
     (Inl (FLANNException ''Datatype of saved index is different than of the one to be loaded.''),
      w\<lparr>calls := calls w @ [Call_fopen filename ''rb'', Call_load_header filename]\<rparr>)"
  using assms
  by (simp add: load_saved_index_def fopen_def call_load_header_def logged_def)

lemma load_saved_index_restores:
  assumes "files w filename = Some bs"
    and "load_header env \<lparr>fname = filename, fwrite = False, fdata = bs, fpos = 0\<rparr>
           = Inr (header, pos)"
    and "h_data_type header = elem_type env"
    and "create_index_by_type env (h_index_type header) dataset
           (Map.empty(''algorithm'' \<mapsto> any_algorithm (h_index_type header))) distance = Inr fresh"
    and "NNIndex_loadIndex env \<lparr>fname = filename, fwrite = False, fdata = bs, fpos = 0\<rparr> fresh
           = (Inr pos', obj)"
  shows "load_saved_index env dataset filename distance w =
     (Inr (Some (length (heap w))),
      w\<lparr>heap := heap w @ [Some obj],
        calls := calls w @
          [Call_fopen filename ''rb'', Call_load_header filename,
           Call_create_index_by_type (h_index_type header), Call_rewind filename,
           Call_member (length (heap w)) M_loadIndex, Call_fclose filename]\<rparr>)"
  using assms
  by (simp add: load_saved_index_def fopen_def call_load_header_def logged_def
      call_create_index_by_type_def new_def rewind_def member_call_valid deref_append_new
      fclose_def)

lemma ctor_saved:
  assumes "params ''algorithm'' = Some (any_algorithm FLANN_INDEX_SAVED)"
    and "params ''filename'' = Some (any_string filename)"
  shows "MultiThreadIndex_params env params distance w =
           (case load_saved_index env [] filename distance w of
              (Inl e, w1) \<Rightarrow> (Inl e, w1)
            | (Inr nnIndex, w1) \<Rightarrow>
                (Inr \<lparr>m_nnIndex = nnIndex, m_loaded = True, m_index_params = params\<rparr>, w1))"
    and "MultiThreadIndex_features env features params distance w =
           (case load_saved_index env features filename distance w of
              (Inl e, w1) \<Rightarrow> (Inl e, w1)
            | (Inr nnIndex, w1) \<Rightarrow>
                (Inr \<lparr>m_nnIndex = nnIndex, m_loaded = True, m_index_params = params\<rparr>, w1))"
  using assms
  by (simp_all add: MultiThreadIndex_params_def MultiThreadIndex_features_def
      get_param_algorithm_def get_param_string_def)

lemma ctor_params_fields:
  "MultiThreadIndex_params env params distance w = (Inr f, w') \<Longrightarrow>
   m_index_params f = params \<and>
   m_loaded f = (params ''algorithm'' = Some (any_algorithm FLANN_INDEX_SAVED))"
  by (auto simp: MultiThreadIndex_params_def get_param_algorithm_def
      split: sum.splits option.splits any.splits if_splits prod.splits)

lemma ctor_features_fields:
  "MultiThreadIndex_features env features params distance w = (Inr f, w') \<Longrightarrow>
   m_index_params f = params \<and>
   m_loaded f = (params ''algorithm'' = Some (any_algorithm FLANN_INDEX_SAVED))"
  by (auto simp: MultiThreadIndex_features_def get_param_algorithm_def
      split: sum.splits option.splits any.splits if_splits prod.splits)

subsection \<open>Copying, assigning, saving\<close>

lemma call_clone_valid:
  "deref (heap w) a = Some obj \<Longrightarrow> NNIndex_clone env obj = Inr obj' \<Longrightarrow>
   call_clone env (Some a) w =
     (Inr (length (heap w)),
      w\<lparr>heap := heap w @ [Some obj'], calls := calls w @ [Call_member a M_clone]\<rparr>)"
  by (simp add: call_clone_def const_member_call_valid new_def)

lemma call_clone_fails:
  "call_clone env p w = (Inl e, w') \<Longrightarrow> heap w' = heap w \<and> files w' = files w"
  by (cases p)
     (auto simp: call_clone_def const_member_call_def member_call_def logged_def new_def
        update_same_object split: option.splits sum.splits prod.splits)

lemma copy_valid:
  "m_nnIndex other = Some a \<Longrightarrow> deref (heap w) a = Some obj \<Longrightarrow>
   NNIndex_clone env obj = Inr obj' \<Longrightarrow>
   MultiThreadIndex_copy env other w =
     (Inr \<lparr>m_nnIndex = Some (length (heap w)), m_loaded = m_loaded other,
            m_index_params = m_index_params other\<rparr>,
      w\<lparr>heap := heap w @ [Some obj'], calls := calls w @ [Call_member a M_clone]\<rparr>)"
  by (simp add: MultiThreadIndex_copy_def call_clone_valid)

lemma copy_fails:
  "MultiThreadIndex_copy env other w = (Inl e, w') \<Longrightarrow> heap w' = heap w \<and> files w' = files w"
  using call_clone_fails [of env "m_nnIndex other" w e w']
  by (auto simp: MultiThreadIndex_copy_def split: prod.splits sum.splits)

lemma call_delete_error:
  "call_delete p w = (Inl e, w') \<Longrightarrow> e = Undefined_behaviour"
  by (auto simp: call_delete_def split: option.splits)

lemma assign_fails:
  assumes "operator_assign env rhs this w = (Inl e, this', w')" and "e \<noteq> Undefined_behaviour"
  shows "this' = this \<and> heap w' = heap w \<and> files w' = files w"
proof (cases "MultiThreadIndex_copy env rhs w")
  case (Pair r w1)
  show ?thesis
  proof (cases r)
    case (Inl e1)
    with Pair assms(1) have "this' = this" "w' = w1"
      by (simp_all add: operator_assign_def)
    moreover have "heap w1 = heap w \<and> files w1 = files w"
      using copy_fails [of env rhs w e1 w1] Pair Inl by simp
    ultimately show ?thesis by simp
  next
    case (Inr other)
    with Pair assms(1) have "\<exists>p. call_delete p w1 = (Inl e, w')"
      by (auto simp: operator_assign_def swap_def destructor_def split: prod.splits)
    then have "e = Undefined_behaviour" using call_delete_error by blast
    with assms(2) show ?thesis by simp
  qed
qed

lemma assign_valid:
  assumes "m_nnIndex rhs = Some a" "deref (heap w) a = Some obj" "NNIndex_clone env obj = Inr obj'"
    and "m_nnIndex this = Some b" "deref (heap w) b = Some old"
  shows "operator_assign env rhs this w =
     (Inr (),
      \<lparr>m_nnIndex = Some (length (heap w)), m_loaded = m_loaded rhs,
        m_index_params = m_index_params rhs\<rparr>,
      w\<lparr>heap := (heap w @ [Some obj'])[b := None],
        calls := calls w @ [Call_member a M_clone, Call_member b M_delete]\<rparr>)"
  using assms
  by (simp add: operator_assign_def copy_valid swap_def destructor_def call_delete_def
      deref_append_old logged_def)


subsection \<open>The linear index on its files\<close>

lemma restore_idx_bin:
  "MultiThreadIndex_params linear_env (SavedIndexParams ''idx.bin'') () saved_world =
     (Inr \<lparr>m_nnIndex = Some 2, m_loaded = True, m_index_params = SavedIndexParams ''idx.bin''\<rparr>,
      saved_world\<lparr>heap := heap saved_world @ [Some four_index],
        calls := [Call_fopen ''idx.bin'' ''rb'', Call_load_header ''idx.bin'',
           Call_create_index_by_type FLANN_INDEX_LINEAR, Call_rewind ''idx.bin'',
           Call_member 2 M_loadIndex, Call_fclose ''idx.bin'']\<rparr>)"
  by (simp add: ctor_defs run_defs linear_defs)

lemma create_linear:
  "MultiThreadIndex_features linear_env four_points linear_params () linear_world =
     (Inr \<lparr>m_nnIndex = Some 2, m_loaded = False, m_index_params = linear_params\<rparr>,
      linear_world\<lparr>heap := heap linear_world @ [Some four_index],
        calls := [Call_create_index_by_type FLANN_INDEX_LINEAR]\<rparr>)"
  by (simp add: ctor_defs run_defs linear_defs)











text \<open>
  The index whose \<^verbatim>\<open>loadIndex\<close> merges, restored from \<open>idx.bin\<close> through either
  constructor.
\<close>

lemma restore_merging_idx_bin_empty:
  "MultiThreadIndex_params merging_env (SavedIndexParams ''idx.bin'') () saved_world =
     (Inr \<lparr>m_nnIndex = Some 2, m_loaded = True, m_index_params = SavedIndexParams ''idx.bin''\<rparr>,
      saved_world\<lparr>heap := heap saved_world @ [Some four_index],
        calls := [Call_fopen ''idx.bin'' ''rb'', Call_load_header ''idx.bin'',
           Call_create_index_by_type (FLANN_INDEX_CONCRETE 0), Call_rewind ''idx.bin'',
           Call_member 2 M_loadIndex, Call_fclose ''idx.bin'']\<rparr>)"
  by (simp add: ctor_defs run_defs linear_defs merging_env_def merging_loadIndex_def)

lemma restore_merging_idx_bin:
  "MultiThreadIndex_features merging_env [[7, 7]] (SavedIndexParams ''idx.bin'') () saved_world =
     (Inr \<lparr>m_nnIndex = Some 2, m_loaded = True, m_index_params = SavedIndexParams ''idx.bin''\<rparr>,
      saved_world\<lparr>heap := heap saved_world @
          [Some \<lparr>li_points = [[7, 7], [0, 0], [1, 0], [0, 1], [5, 5]],
                  li_params = linear_params\<rparr>],
        calls := [Call_fopen ''idx.bin'' ''rb'', Call_load_header ''idx.bin'',
           Call_create_index_by_type (FLANN_INDEX_CONCRETE 0), Call_rewind ''idx.bin'',
           Call_member 2 M_loadIndex, Call_fclose ''idx.bin'']\<rparr>)"
  by (simp add: ctor_defs run_defs linear_defs merging_env_def merging_loadIndex_def)

section \<open>The claims\<close>

subsection \<open>Construction from a file that cannot be opened\<close>

text \<open>
  C1. When the file cannot be opened for reading, no "cannot open file" error is
  raised: \<^verbatim>\<open>load_saved_index\<close> returns \<^verbatim>\<open>NULL\<close>, and either constructor called with the
  "saved" sentinel and the name of such a file returns normally, after the one call of
  \<^verbatim>\<open>fopen\<close>, with a facade whose \<^verbatim>\<open>nnIndex_\<close> is null and whose \<^verbatim>\<open>loaded_\<close> is true. On that
  facade \<^verbatim>\<open>buildIndex()\<close> returns without doing anything, and \<^verbatim>\<open>size()\<close> goes through
  the null pointer. (\<^verbatim>\<open>save\<close> throws \<^verbatim>\<open>FLANNException("Cannot open file")\<close> when its
  \<^verbatim>\<open>fopen\<close> fails.)
\<close>

theorem unreadable_file_yields_facade_without_algorithm:
  assumes "files w filename = None"
    and "params ''algorithm'' = Some (any_algorithm FLANN_INDEX_SAVED)"
    and "params ''filename'' = Some (any_string filename)"
  shows "MultiThreadIndex_params env params distance w =
           (Inr \<lparr>m_nnIndex = None, m_loaded = True, m_index_params = params\<rparr>,
            w\<lparr>calls := calls w @ [Call_fopen filename ''rb'']\<rparr>) \<and>
         MultiThreadIndex_features env features params distance w =
           (Inr \<lparr>m_nnIndex = None, m_loaded = True, m_index_params = params\<rparr>,
            w\<lparr>calls := calls w @ [Call_fopen filename ''rb'']\<rparr>) \<and>
         buildIndex env \<lparr>m_nnIndex = None, m_loaded = True, m_index_params = params\<rparr> w' =
           (Inr (), \<lparr>m_nnIndex = None, m_loaded = True, m_index_params = params\<rparr>, w') \<and>
         size_index env \<lparr>m_nnIndex = None, m_loaded = True, m_index_params = params\<rparr> w' =
           (Inl Undefined_behaviour,
            \<lparr>m_nnIndex = None, m_loaded = True, m_index_params = params\<rparr>, w')"
  using assms
  by (simp add: ctor_saved load_saved_index_unreadable buildIndex_def size_index_def
      forward_def const_member_call_def member_call_null)

theorem unreadable_file_yields_facade_without_algorithm_witness:
  "MultiThreadIndex_params linear_env (SavedIndexParams ''missing.bin'') () linear_world =
     (Inr \<lparr>m_nnIndex = None, m_loaded = True,
            m_index_params = SavedIndexParams ''missing.bin''\<rparr>,
      linear_world\<lparr>calls := calls linear_world @ [Call_fopen ''missing.bin'' ''rb'']\<rparr>) \<and>
   MultiThreadIndex_features linear_env four_points (SavedIndexParams ''missing.bin'') ()
     linear_world =
     (Inr \<lparr>m_nnIndex = None, m_loaded = True,
            m_index_params = SavedIndexParams ''missing.bin''\<rparr>,
      linear_world\<lparr>calls := calls linear_world @ [Call_fopen ''missing.bin'' ''rb'']\<rparr>) \<and>
   buildIndex linear_env
     \<lparr>m_nnIndex = None, m_loaded = True, m_index_params = SavedIndexParams ''missing.bin''\<rparr>
     linear_world =
     (Inr (),
      \<lparr>m_nnIndex = None, m_loaded = True, m_index_params = SavedIndexParams ''missing.bin''\<rparr>,
      linear_world) \<and>
   size_index linear_env
     \<lparr>m_nnIndex = None, m_loaded = True, m_index_params = SavedIndexParams ''missing.bin''\<rparr>
     linear_world =
     (Inl Undefined_behaviour,
      \<lparr>m_nnIndex = None, m_loaded = True, m_index_params = SavedIndexParams ''missing.bin''\<rparr>,
      linear_world)"
proof -
  have h1: "files linear_world ''missing.bin'' = None"
    by (simp add: linear_world_def)
  have h2: "SavedIndexParams ''missing.bin'' ''algorithm'' = Some (any_algorithm FLANN_INDEX_SAVED)"
    by (simp add: SavedIndexParams_def)
  have h3: "SavedIndexParams ''missing.bin'' ''filename'' = Some (any_string ''missing.bin'')"
    by (simp add: SavedIndexParams_def)
  show ?thesis
    by (rule unreadable_file_yields_facade_without_algorithm [OF h1 h2 h3])
qed

subsection \<open>buildIndex\<close>

text \<open>
  C2. On a facade marked loaded, \<^verbatim>\<open>buildIndex()\<close> returns without touching anything. On
  a facade that owns an algorithm, \<^verbatim>\<open>buildIndex()\<close> calls the algorithm's
  \<^verbatim>\<open>buildIndex()\<close> when the facade is not marked loaded, and \<^verbatim>\<open>buildIndex(points)\<close> calls
  the algorithm's \<^verbatim>\<open>buildIndex(points)\<close> whatever the mark is.
\<close>

theorem buildIndex_skips_loaded_buildIndex_points_forwards:
  "(m_loaded this \<longrightarrow> buildIndex env this w = (Inr (), this, w)) \<and>
   (m_nnIndex this = Some a \<and> deref (heap w) a = Some obj \<longrightarrow>
      (\<not> m_loaded this \<longrightarrow>
         buildIndex env this w =
           (fst (NNIndex_buildIndex env obj), this,
            w\<lparr>heap := (heap w)[a := Some (snd (NNIndex_buildIndex env obj))],
              calls := calls w @ [Call_member a M_buildIndex]\<rparr>)) \<and>
      buildIndex_points env points this w =
        (fst (NNIndex_buildIndex_points env points obj), this,
         w\<lparr>heap := (heap w)[a := Some (snd (NNIndex_buildIndex_points env points obj))],
           calls := calls w @ [Call_member a M_buildIndex_points]\<rparr>))"
  by (simp add: buildIndex_def buildIndex_points_def forward_def member_call_valid)

theorem buildIndex_skips_loaded_buildIndex_points_forwards_witness:
  "calls (snd (snd (buildIndex linear_env built_facade linear_world))) = [Call_member 0 M_buildIndex] \<and>
   buildIndex linear_env restored_facade linear_world = (Inr (), restored_facade, linear_world) \<and>
   calls (snd (snd (buildIndex_points linear_env [[1, 1]] built_facade linear_world)))
     = [Call_member 0 M_buildIndex_points] \<and>
   calls (snd (snd (buildIndex_points linear_env [[1, 1]] restored_facade linear_world)))
     = [Call_member 1 M_buildIndex_points]"
  using buildIndex_skips_loaded_buildIndex_points_forwards
          [of built_facade linear_env linear_world 0 four_index "[[1, 1]]"]
        buildIndex_skips_loaded_buildIndex_points_forwards
          [of restored_facade linear_env linear_world 1 one_index "[[1, 1]]"]
  by (simp add: deref_def linear_defs)

subsection \<open>A header of another element type\<close>

text \<open>
  C3. When the file opens, \<^verbatim>\<open>load_header\<close> returns a header, and the header's
  \<^verbatim>\<open>data_type\<close> is not the element type's tag, then \<^verbatim>\<open>load_saved_index\<close> throws
  \<^verbatim>\<open>FLANNException("Datatype of saved index is different than of the one to be loaded.")\<close>
  and so does either constructor called with the "saved" sentinel and that file name:
  no facade is made. The only calls were \<^verbatim>\<open>fopen\<close> and \<^verbatim>\<open>load_header\<close>, so no algorithm
  object was created and the heap is as it was.
\<close>

theorem mismatched_datatype_aborts_load:
  assumes "files w filename = Some bs"
    and "load_header env \<lparr>fname = filename, fwrite = False, fdata = bs, fpos = 0\<rparr>
           = Inr (header, pos)"
    and "h_data_type header \<noteq> elem_type env"
    and "params ''algorithm'' = Some (any_algorithm FLANN_INDEX_SAVED)"
    and "params ''filename'' = Some (any_string filename)"
  shows "load_saved_index env dataset filename distance w =
           (Inl (FLANNException
              ''Datatype of saved index is different than of the one to be loaded.''),
            w\<lparr>calls := calls w @ [Call_fopen filename ''rb'', Call_load_header filename]\<rparr>) \<and>
         MultiThreadIndex_params env params distance w =
           (Inl (FLANNException
              ''Datatype of saved index is different than of the one to be loaded.''),
            w\<lparr>calls := calls w @ [Call_fopen filename ''rb'', Call_load_header filename]\<rparr>) \<and>
         MultiThreadIndex_features env dataset params distance w =
           (Inl (FLANNException
              ''Datatype of saved index is different than of the one to be loaded.''),
            w\<lparr>calls := calls w @ [Call_fopen filename ''rb'', Call_load_header filename]\<rparr>)"
  using assms by (simp add: ctor_saved load_saved_index_mismatch)

theorem mismatched_datatype_aborts_load_witness:
  "load_saved_index linear_env four_points ''float.bin'' () saved_world =
     (Inl (FLANNException ''Datatype of saved index is different than of the one to be loaded.''),
      saved_world\<lparr>calls := calls saved_world @
        [Call_fopen ''float.bin'' ''rb'', Call_load_header ''float.bin'']\<rparr>) \<and>
   MultiThreadIndex_params linear_env (SavedIndexParams ''float.bin'') () saved_world =
     (Inl (FLANNException ''Datatype of saved index is different than of the one to be loaded.''),
      saved_world\<lparr>calls := calls saved_world @
        [Call_fopen ''float.bin'' ''rb'', Call_load_header ''float.bin'']\<rparr>) \<and>
   MultiThreadIndex_features linear_env four_points (SavedIndexParams ''float.bin'') () saved_world =
     (Inl (FLANNException ''Datatype of saved index is different than of the one to be loaded.''),
      saved_world\<lparr>calls := calls saved_world @
        [Call_fopen ''float.bin'' ''rb'', Call_load_header ''float.bin'']\<rparr>)"
proof -
  have h1: "files saved_world ''float.bin'' = Some [8, 0, 1, 1, 7]"
    by (simp add: saved_world_def)
  have h2: "load_header linear_env
              \<lparr>fname = ''float.bin'', fwrite = False, fdata = [8, 0, 1, 1, 7], fpos = 0\<rparr>
            = Inr (\<lparr>h_data_type = 8, h_index_type = FLANN_INDEX_CONCRETE 0\<rparr>, 2)"
    by (simp add: linear_defs)
  have h3: "h_data_type \<lparr>h_data_type = 8, h_index_type = FLANN_INDEX_CONCRETE 0\<rparr>
              \<noteq> elem_type linear_env"
    by (simp add: linear_defs)
  have h4: "SavedIndexParams ''float.bin'' ''algorithm'' = Some (any_algorithm FLANN_INDEX_SAVED)"
    by (simp add: SavedIndexParams_def)
  have h5: "SavedIndexParams ''float.bin'' ''filename'' = Some (any_string ''float.bin'')"
    by (simp add: SavedIndexParams_def)
  show ?thesis
    by (rule mismatched_datatype_aborts_load [OF h1 h2 h3 h4 h5])
qed

subsection \<open>The order of a restore\<close>

text \<open>
  C4, as far as it says that the instance is created empty: it is not, through the
  constructor that takes \<open>features\<close>. With an algorithm whose \<^verbatim>\<open>loadIndex\<close> adds the
  points of the file to those the instance was created over, restoring \<open>idx.bin\<close>
  through the constructor from a configuration gives the four points of the file, and
  restoring it through the other constructor with the one point \<open>(7,7)\<close> gives five:
  line 80 hands \<open>features\<close> to \<^verbatim>\<open>load_saved_index\<close>, and line 356 creates the instance
  over them.
\<close>

theorem restore_through_features_constructor_counterexample:
  "MultiThreadIndex_params merging_env (SavedIndexParams ''idx.bin'') () saved_world =
     (Inr \<lparr>m_nnIndex = Some 2, m_loaded = True, m_index_params = SavedIndexParams ''idx.bin''\<rparr>,
      saved_world\<lparr>heap := heap saved_world @ [Some four_index],
        calls := [Call_fopen ''idx.bin'' ''rb'', Call_load_header ''idx.bin'',
           Call_create_index_by_type (FLANN_INDEX_CONCRETE 0), Call_rewind ''idx.bin'',
           Call_member 2 M_loadIndex, Call_fclose ''idx.bin'']\<rparr>) \<and>
   MultiThreadIndex_features merging_env [[7, 7]] (SavedIndexParams ''idx.bin'') () saved_world =
     (Inr \<lparr>m_nnIndex = Some 2, m_loaded = True, m_index_params = SavedIndexParams ''idx.bin''\<rparr>,
      saved_world\<lparr>heap := heap saved_world @
          [Some \<lparr>li_points = [[7, 7], [0, 0], [1, 0], [0, 1], [5, 5]],
                  li_params = linear_params\<rparr>],
        calls := [Call_fopen ''idx.bin'' ''rb'', Call_load_header ''idx.bin'',
           Call_create_index_by_type (FLANN_INDEX_CONCRETE 0), Call_rewind ''idx.bin'',
           Call_member 2 M_loadIndex, Call_fclose ''idx.bin'']\<rparr>) \<and>
   NNIndex_size merging_env four_index = Inr 4 \<and>
   NNIndex_size merging_env
     \<lparr>li_points = [[7, 7], [0, 0], [1, 0], [0, 1], [5, 5]], li_params = linear_params\<rparr> = Inr 5"
proof (intro conjI)
  show "NNIndex_size merging_env four_index = Inr 4"
    by (simp add: merging_env_def linear_env_def four_index_def four_points_def)
  show "NNIndex_size merging_env
     \<lparr>li_points = [[7, 7], [0, 0], [1, 0], [0, 1], [5, 5]], li_params = linear_params\<rparr> = Inr 5"
    by (simp add: merging_env_def linear_env_def)
qed (rule restore_merging_idx_bin_empty, rule restore_merging_idx_bin)

text \<open>
  C4. Take either constructor, called with the "saved" sentinel and the name of a
  file that opens and whose header \<^verbatim>\<open>load_header\<close> returns. If the header's \<^verbatim>\<open>data_type\<close>
  is the element type's tag, \<^verbatim>\<open>create_index_by_type\<close> makes an instance for the header's
  \<^verbatim>\<open>index_type\<close> over the matrix the constructor holds (the matrix without rows in the
  constructor from a configuration, the caller's \<open>features\<close> in the other), and that
  instance's \<^verbatim>\<open>loadIndex\<close> returns on the stream at position \<open>0\<close>, then the calls are,
  in this order, \<^verbatim>\<open>fopen\<close>, \<^verbatim>\<open>load_header\<close>, \<^verbatim>\<open>create_index_by_type\<close> with the header's
  tag, \<^verbatim>\<open>rewind\<close>, \<^verbatim>\<open>loadIndex\<close> on the new instance, \<^verbatim>\<open>fclose\<close>; the facade owns the
  new instance as \<^verbatim>\<open>loadIndex\<close> left it, and is marked loaded. And either constructor
  returns a facade only if the header's \<^verbatim>\<open>data_type\<close> is the element type's tag.
\<close>

theorem restore_creates_over_constructor_matrix_in_order:
  assumes on_disk: "files w filename = Some bs"
    and reads_header:
      "load_header env \<lparr>fname = filename, fwrite = False, fdata = bs, fpos = 0\<rparr>
         = Inr (header, pos)"
    and sentinel: "params ''algorithm'' = Some (any_algorithm FLANN_INDEX_SAVED)"
    and named: "params ''filename'' = Some (any_string filename)"
  shows "(h_data_type header = elem_type env \<and>
          create_index_by_type env (h_index_type header) []
            (Map.empty(''algorithm'' \<mapsto> any_algorithm (h_index_type header))) distance
            = Inr fresh \<and>
          NNIndex_loadIndex env \<lparr>fname = filename, fwrite = False, fdata = bs, fpos = 0\<rparr> fresh
            = (Inr pos', obj) \<longrightarrow>
          MultiThreadIndex_params env params distance w =
            (Inr \<lparr>m_nnIndex = Some (length (heap w)), m_loaded = True, m_index_params = params\<rparr>,
             w\<lparr>heap := heap w @ [Some obj],
               calls := calls w @
                 [Call_fopen filename ''rb'', Call_load_header filename,
                  Call_create_index_by_type (h_index_type header), Call_rewind filename,
                  Call_member (length (heap w)) M_loadIndex, Call_fclose filename]\<rparr>)) \<and>
         (h_data_type header = elem_type env \<and>
          create_index_by_type env (h_index_type header) features
            (Map.empty(''algorithm'' \<mapsto> any_algorithm (h_index_type header))) distance
            = Inr fresh_f \<and>
          NNIndex_loadIndex env \<lparr>fname = filename, fwrite = False, fdata = bs, fpos = 0\<rparr> fresh_f
            = (Inr pos_f, obj_f) \<longrightarrow>
          MultiThreadIndex_features env features params distance w =
            (Inr \<lparr>m_nnIndex = Some (length (heap w)), m_loaded = True, m_index_params = params\<rparr>,
             w\<lparr>heap := heap w @ [Some obj_f],
               calls := calls w @
                 [Call_fopen filename ''rb'', Call_load_header filename,
                  Call_create_index_by_type (h_index_type header), Call_rewind filename,
                  Call_member (length (heap w)) M_loadIndex, Call_fclose filename]\<rparr>)) \<and>
         (\<forall>f w'. MultiThreadIndex_params env params distance w = (Inr f, w') \<longrightarrow>
            h_data_type header = elem_type env) \<and>
         (\<forall>f w'. MultiThreadIndex_features env features params distance w = (Inr f, w') \<longrightarrow>
            h_data_type header = elem_type env)"
proof -
  have matched: "h_data_type header = elem_type env"
    if "load_saved_index env dataset filename distance w = (Inr p, w')" for dataset p w'
  proof (rule ccontr)
    assume "h_data_type header \<noteq> elem_type env"
    then have "fst (load_saved_index env dataset filename distance w) =
      Inl (FLANNException ''Datatype of saved index is different than of the one to be loaded.'')"
      using load_saved_index_mismatch [OF on_disk reads_header] by simp
    with that show False by simp
  qed
  have from_params: "MultiThreadIndex_params env params distance w =
            (Inr \<lparr>m_nnIndex = Some (length (heap w)), m_loaded = True, m_index_params = params\<rparr>,
             w\<lparr>heap := heap w @ [Some obj],
               calls := calls w @
                 [Call_fopen filename ''rb'', Call_load_header filename,
                  Call_create_index_by_type (h_index_type header), Call_rewind filename,
                  Call_member (length (heap w)) M_loadIndex, Call_fclose filename]\<rparr>)"
    if "h_data_type header = elem_type env"
      and "create_index_by_type env (h_index_type header) []
            (Map.empty(''algorithm'' \<mapsto> any_algorithm (h_index_type header))) distance
            = Inr fresh"
      and "NNIndex_loadIndex env \<lparr>fname = filename, fwrite = False, fdata = bs, fpos = 0\<rparr> fresh
            = (Inr pos', obj)"
    using load_saved_index_restores [OF on_disk reads_header that]
    by (simp add: ctor_saved [OF sentinel named])
  have from_features: "MultiThreadIndex_features env features params distance w =
            (Inr \<lparr>m_nnIndex = Some (length (heap w)), m_loaded = True, m_index_params = params\<rparr>,
             w\<lparr>heap := heap w @ [Some obj_f],
               calls := calls w @
                 [Call_fopen filename ''rb'', Call_load_header filename,
                  Call_create_index_by_type (h_index_type header), Call_rewind filename,
                  Call_member (length (heap w)) M_loadIndex, Call_fclose filename]\<rparr>)"
    if "h_data_type header = elem_type env"
      and "create_index_by_type env (h_index_type header) features
            (Map.empty(''algorithm'' \<mapsto> any_algorithm (h_index_type header))) distance
            = Inr fresh_f"
      and "NNIndex_loadIndex env \<lparr>fname = filename, fwrite = False, fdata = bs, fpos = 0\<rparr> fresh_f
            = (Inr pos_f, obj_f)"
    using load_saved_index_restores [OF on_disk reads_header that]
    by (simp add: ctor_saved [OF sentinel named])
  have params_matched: "h_data_type header = elem_type env"
    if "MultiThreadIndex_params env params distance w = (Inr f, w')" for f w'
    using that matched [of "[]"]
    by (auto simp: ctor_saved [OF sentinel named] split: prod.splits sum.splits)
  have features_matched: "h_data_type header = elem_type env"
    if "MultiThreadIndex_features env features params distance w = (Inr f, w')" for f w'
    using that matched [of features]
    by (auto simp: ctor_saved [OF sentinel named] split: prod.splits sum.splits)
  from from_params from_features params_matched features_matched show ?thesis
    by blast
qed

theorem restore_creates_over_constructor_matrix_in_order_witness:
  "MultiThreadIndex_params linear_env (SavedIndexParams ''idx.bin'') () saved_world =
     (Inr \<lparr>m_nnIndex = Some 2, m_loaded = True, m_index_params = SavedIndexParams ''idx.bin''\<rparr>,
      saved_world\<lparr>heap := heap saved_world @ [Some four_index],
        calls := [Call_fopen ''idx.bin'' ''rb'', Call_load_header ''idx.bin'',
           Call_create_index_by_type (FLANN_INDEX_CONCRETE 0), Call_rewind ''idx.bin'',
           Call_member 2 M_loadIndex, Call_fclose ''idx.bin'']\<rparr>) \<and>
   MultiThreadIndex_features linear_env [[7, 7]] (SavedIndexParams ''idx.bin'') () saved_world =
     (Inr \<lparr>m_nnIndex = Some 2, m_loaded = True, m_index_params = SavedIndexParams ''idx.bin''\<rparr>,
      saved_world\<lparr>heap := heap saved_world @ [Some four_index],
        calls := [Call_fopen ''idx.bin'' ''rb'', Call_load_header ''idx.bin'',
           Call_create_index_by_type (FLANN_INDEX_CONCRETE 0), Call_rewind ''idx.bin'',
           Call_member 2 M_loadIndex, Call_fclose ''idx.bin'']\<rparr>)"
proof -
  let ?header = "\<lparr>h_data_type = 4, h_index_type = FLANN_INDEX_CONCRETE 0\<rparr>"
  let ?stream = "\<lparr>fname = ''idx.bin'', fwrite = False,
                   fdata = [4, 0, 4, 0, 0, 0, 0, 0, 0, 0, 2, 0, 0, 0, 0, 0, 0, 0,
                            0, 0, 1, 0, 0, 1, 5, 5], fpos = 0\<rparr>"
  have h1: "files saved_world ''idx.bin'' = Some (fdata ?stream)"
    by (simp add: saved_world_def)
  have h2: "load_header linear_env
              \<lparr>fname = ''idx.bin'', fwrite = False, fdata = fdata ?stream, fpos = 0\<rparr>
            = Inr (?header, 2)"
    by (simp add: linear_defs)
  have h3: "SavedIndexParams ''idx.bin'' ''algorithm'' = Some (any_algorithm FLANN_INDEX_SAVED)"
    by (simp add: SavedIndexParams_def)
  have h4: "SavedIndexParams ''idx.bin'' ''filename'' = Some (any_string ''idx.bin'')"
    by (simp add: SavedIndexParams_def)
  have h5: "h_data_type ?header = elem_type linear_env"
    by (simp add: linear_defs)
  have h6: "create_index_by_type linear_env (h_index_type ?header) dataset
              (Map.empty(''algorithm'' \<mapsto> any_algorithm (h_index_type ?header))) ()
            = Inr \<lparr>li_points = dataset, li_params = linear_params\<rparr>" for dataset
    by (simp add: linear_defs)
  have h7: "NNIndex_loadIndex linear_env
              \<lparr>fname = ''idx.bin'', fwrite = False, fdata = fdata ?stream, fpos = 0\<rparr>
              \<lparr>li_points = dataset, li_params = linear_params\<rparr>
            = (Inr 26, four_index)" for dataset
    by (simp add: linear_defs)
  note ordered = restore_creates_over_constructor_matrix_in_order
            [OF h1 h2 h3 h4, where fresh = "\<lparr>li_points = [], li_params = linear_params\<rparr>"
               and distance = "()" and pos' = 26 and obj = four_index
               and features = "[[7, 7]]"
               and fresh_f = "\<lparr>li_points = [[7, 7]], li_params = linear_params\<rparr>"
               and pos_f = 26 and obj_f = four_index]
  have from_params:
    "MultiThreadIndex_params linear_env (SavedIndexParams ''idx.bin'') () saved_world =
       (Inr \<lparr>m_nnIndex = Some (length (heap saved_world)), m_loaded = True,
              m_index_params = SavedIndexParams ''idx.bin''\<rparr>,
        saved_world\<lparr>heap := heap saved_world @ [Some four_index],
          calls := calls saved_world @
            [Call_fopen ''idx.bin'' ''rb'', Call_load_header ''idx.bin'',
             Call_create_index_by_type (h_index_type ?header),
             Call_rewind ''idx.bin'', Call_member (length (heap saved_world)) M_loadIndex,
             Call_fclose ''idx.bin'']\<rparr>)"
    using conjunct1 [OF ordered] h5 h6 [of "[]"] h7 [of "[]"] by blast
  have from_features:
    "MultiThreadIndex_features linear_env [[7, 7]] (SavedIndexParams ''idx.bin'') () saved_world =
       (Inr \<lparr>m_nnIndex = Some (length (heap saved_world)), m_loaded = True,
              m_index_params = SavedIndexParams ''idx.bin''\<rparr>,
        saved_world\<lparr>heap := heap saved_world @ [Some four_index],
          calls := calls saved_world @
            [Call_fopen ''idx.bin'' ''rb'', Call_load_header ''idx.bin'',
             Call_create_index_by_type (h_index_type ?header),
             Call_rewind ''idx.bin'', Call_member (length (heap saved_world)) M_loadIndex,
             Call_fclose ''idx.bin'']\<rparr>)"
    using conjunct1 [OF conjunct2 [OF ordered]] h5 h6 [of "[[7, 7]]"] h7 [of "[[7, 7]]"]
    by blast
  have at_two: "length (heap saved_world) = 2" and no_calls: "calls saved_world = []"
    by (simp_all add: saved_world_def linear_world_def)
  show ?thesis
    unfolding from_params from_features by (simp add: at_two no_calls)
qed

subsection \<open>save\<close>

text \<open>
  C5. \<^verbatim>\<open>save(filename)\<close> opens the file with mode \<^verbatim>\<open>"wb"\<close>. When that fails it throws
  \<^verbatim>\<open>FLANNException("Cannot open file")\<close>, and neither the heap nor any file has changed.
  When it succeeds on a facade that owns an algorithm whose \<^verbatim>\<open>saveIndex\<close> returns, the
  calls are \<^verbatim>\<open>fopen\<close>, one \<^verbatim>\<open>saveIndex\<close> on the stream, \<^verbatim>\<open>fclose\<close>, and the file holds what
  \<^verbatim>\<open>saveIndex\<close> wrote.
\<close>

theorem save_opens_serializes_closes:
  "(\<not> writable w filename \<longrightarrow>
      save env filename this w =
        (Inl (FLANNException ''Cannot open file''), this,
         w\<lparr>calls := calls w @ [Call_fopen filename ''wb'']\<rparr>)) \<and>
   (writable w filename \<and> m_nnIndex this = Some a \<and> deref (heap w) a = Some obj \<and>
    NNIndex_saveIndex env \<lparr>fname = filename, fwrite = True, fdata = [], fpos = 0\<rparr> obj
      = (Inr (bs, pos), obj') \<longrightarrow>
      save env filename this w =
        (Inr (), this,
         w\<lparr>heap := (heap w)[a := Some obj'],
           files := (files w)(filename \<mapsto> bs),
           calls := calls w @ [Call_fopen filename ''wb'', Call_member a M_saveIndex,
                               Call_fclose filename]\<rparr>))"
  by (simp add: save_def fopen_def fclose_def logged_def member_call_valid)

theorem save_opens_serializes_closes_witness:
  "fst (save linear_env ''/readonly/idx.bin'' built_facade linear_world)
     = Inl (FLANNException ''Cannot open file'') \<and>
   files (snd (snd (save linear_env ''/readonly/idx.bin'' built_facade linear_world)))
     ''/readonly/idx.bin'' = None \<and>
   fst (save linear_env ''idx.bin'' built_facade linear_world) = Inr () \<and>
   files (snd (snd (save linear_env ''idx.bin'' built_facade linear_world))) ''idx.bin''
     = Some [4, 0, 4, 0, 0, 0, 0, 0, 0, 0, 2, 0, 0, 0, 0, 0, 0, 0, 0, 0, 1, 0, 0, 1, 5, 5] \<and>
   calls (snd (snd (save linear_env ''idx.bin'' built_facade linear_world)))
     = [Call_fopen ''idx.bin'' ''wb'', Call_member 0 M_saveIndex, Call_fclose ''idx.bin'']"
  using save_opens_serializes_closes
          [of linear_world "''/readonly/idx.bin''" linear_env built_facade 0 four_index "[]" 0 four_index]
        save_opens_serializes_closes
          [of linear_world "''idx.bin''" linear_env built_facade 0 four_index
              "[4, 0, 4, 0, 0, 0, 0, 0, 0, 0, 2, 0, 0, 0, 0, 0, 0, 0, 0, 0, 1, 0, 0, 1, 5, 5]" 26 four_index]
  by (simp add: deref_def linear_defs)

subsection \<open>Copy and assignment\<close>

text \<open>
  C6. Copying a facade that owns an algorithm whose \<^verbatim>\<open>clone()\<close> returns gives a facade
  with the same mark and configuration that owns the clone, at an address of its own:
  both objects are on the heap, a member call through either pointer leaves the other
  object as it was. Assigning to a facade that owns an algorithm makes the copy, swaps
  it in and deletes the algorithm the target owned before. An assignment that throws
  has thrown from the copy: the target has its old data members, and the heap and the
  files are as they were.
\<close>

theorem copy_clones_assignment_copies_then_swaps:
  "(m_nnIndex rhs = Some a \<and> deref (heap w) a = Some obj \<and> NNIndex_clone env obj = Inr obj' \<longrightarrow>
      (let a' = length (heap w);
           w1 = w\<lparr>heap := heap w @ [Some obj'], calls := calls w @ [Call_member a M_clone]\<rparr>
       in MultiThreadIndex_copy env rhs w =
            (Inr \<lparr>m_nnIndex = Some a', m_loaded = m_loaded rhs,
                   m_index_params = m_index_params rhs\<rparr>, w1) \<and>
          a' \<noteq> a \<and> deref (heap w1) a = Some obj \<and> deref (heap w1) a' = Some obj' \<and>
          (\<forall>m f. deref (heap (snd (member_call m (Some a') f w1))) a = Some obj) \<and>
          (\<forall>m f. deref (heap (snd (member_call m (Some a) f w1))) a' = Some obj') \<and>
          (m_nnIndex this = Some b \<and> deref (heap w) b = Some old \<longrightarrow>
             operator_assign env rhs this w =
               (Inr (),
                \<lparr>m_nnIndex = Some a', m_loaded = m_loaded rhs,
                  m_index_params = m_index_params rhs\<rparr>,
                w\<lparr>heap := (heap w @ [Some obj'])[b := None],
                  calls := calls w @ [Call_member a M_clone, Call_member b M_delete]\<rparr>)))) \<and>
   (operator_assign env rhs this w = (Inl e, this', w') \<and> e \<noteq> Undefined_behaviour \<longrightarrow>
      this' = this \<and> heap w' = heap w \<and> files w' = files w)"
proof -
  define a' where "a' = length (heap w)"
  define w1 where
    "w1 = w\<lparr>heap := heap w @ [Some obj'], calls := calls w @ [Call_member a M_clone]\<rparr>"
  have heap_w1: "heap w1 = heap w @ [Some obj']"
    by (simp add: w1_def)
  have copied: "MultiThreadIndex_copy env rhs w =
            (Inr \<lparr>m_nnIndex = Some a', m_loaded = m_loaded rhs,
                   m_index_params = m_index_params rhs\<rparr>, w1) \<and>
          a' \<noteq> a \<and> deref (heap w1) a = Some obj \<and> deref (heap w1) a' = Some obj' \<and>
          (\<forall>m f. deref (heap (snd (member_call m (Some a') f w1))) a = Some obj) \<and>
          (\<forall>m f. deref (heap (snd (member_call m (Some a) f w1))) a' = Some obj') \<and>
          (m_nnIndex this = Some b \<and> deref (heap w) b = Some old \<longrightarrow>
             operator_assign env rhs this w =
               (Inr (),
                \<lparr>m_nnIndex = Some a', m_loaded = m_loaded rhs,
                  m_index_params = m_index_params rhs\<rparr>,
                w\<lparr>heap := (heap w @ [Some obj'])[b := None],
                  calls := calls w @ [Call_member a M_clone, Call_member b M_delete]\<rparr>))"
    if h1: "m_nnIndex rhs = Some a" and h2: "deref (heap w) a = Some obj"
      and h3: "NNIndex_clone env obj = Inr obj'"
  proof -
    have ne: "a' \<noteq> a"
      using deref_Some_less [OF h2] by (simp add: a'_def)
    have old_there: "deref (heap w1) a = Some obj"
      using deref_append_old [OF h2] by (simp add: heap_w1)
    have new_there: "deref (heap w1) a' = Some obj'"
      by (simp add: heap_w1 a'_def deref_append_new)
    have c1: "MultiThreadIndex_copy env rhs w =
            (Inr \<lparr>m_nnIndex = Some a', m_loaded = m_loaded rhs,
                   m_index_params = m_index_params rhs\<rparr>, w1)"
      using copy_valid [OF h1 h2 h3] by (simp add: a'_def w1_def)
    have c5: "\<forall>m f. deref (heap (snd (member_call m (Some a') f w1))) a = Some obj"
      using member_call_heap_other [of a a'] ne old_there by metis
    have c6: "\<forall>m f. deref (heap (snd (member_call m (Some a) f w1))) a' = Some obj'"
      using member_call_heap_other [of a' a] ne new_there by metis
    have c7: "operator_assign env rhs this w =
               (Inr (),
                \<lparr>m_nnIndex = Some a', m_loaded = m_loaded rhs,
                  m_index_params = m_index_params rhs\<rparr>,
                w\<lparr>heap := (heap w @ [Some obj'])[b := None],
                  calls := calls w @ [Call_member a M_clone, Call_member b M_delete]\<rparr>)"
      if "m_nnIndex this = Some b" "deref (heap w) b = Some old"
      using assign_valid [OF h1 h2 h3 that] by (simp add: a'_def)
    from c1 ne old_there new_there c5 c6 c7 show ?thesis by blast
  qed
  have failed: "this' = this \<and> heap w' = heap w \<and> files w' = files w"
    if "operator_assign env rhs this w = (Inl e, this', w')" "e \<noteq> Undefined_behaviour"
    using assign_fails [OF that] .
  from copied failed show ?thesis
    unfolding Let_def a'_def w1_def by blast
qed

theorem copy_clones_assignment_copies_then_swaps_witness:
  "MultiThreadIndex_copy linear_env built_facade linear_world =
     (Inr \<lparr>m_nnIndex = Some 2, m_loaded = False, m_index_params = linear_params\<rparr>,
      linear_world\<lparr>heap := [Some four_index, Some one_index, Some four_index],
                    calls := [Call_member 0 M_clone]\<rparr>) \<and>
   operator_assign linear_env built_facade restored_facade linear_world =
     (Inr (), \<lparr>m_nnIndex = Some 2, m_loaded = False, m_index_params = linear_params\<rparr>,
      linear_world\<lparr>heap := [Some four_index, None, Some four_index],
                    calls := [Call_member 0 M_clone, Call_member 1 M_delete]\<rparr>) \<and>
   operator_assign no_clone_env built_facade restored_facade linear_world =
     (Inl (FLANNException ''std::bad_alloc''), restored_facade,
      linear_world\<lparr>calls := [Call_member 0 M_clone]\<rparr>) \<and>
   heap (linear_world\<lparr>calls := [Call_member 0 M_clone]\<rparr>) = heap linear_world"
proof -
  have owned: "m_nnIndex built_facade = Some 0 \<and> deref (heap linear_world) 0 = Some four_index \<and>
               NNIndex_clone linear_env four_index = Inr four_index"
    by (simp add: built_facade_def linear_world_def deref_def linear_env_def)
  have target: "m_nnIndex restored_facade = Some 1 \<and> deref (heap linear_world) 1 = Some one_index"
    by (simp add: restored_facade_def linear_world_def deref_def)
  have fails: "operator_assign no_clone_env built_facade restored_facade linear_world =
     (Inl (FLANNException ''std::bad_alloc''), restored_facade,
      linear_world\<lparr>calls := [Call_member 0 M_clone]\<rparr>)"
    by (simp add: operator_assign_def MultiThreadIndex_copy_def no_clone_env_def run_defs
        linear_env_def linear_world_def built_facade_def)
  note copies = copy_clones_assignment_copies_then_swaps
      [where rhs = built_facade and a = 0 and w = linear_world and obj = four_index
         and env = linear_env and obj' = four_index and this = restored_facade and b = 1
         and old = one_index]
  note keeps = copy_clones_assignment_copies_then_swaps
      [where rhs = built_facade and env = no_clone_env and this = restored_facade
         and w = linear_world and e = "FLANNException ''std::bad_alloc''"
         and this' = restored_facade and w' = "linear_world\<lparr>calls := [Call_member 0 M_clone]\<rparr>"]
  have "heap (linear_world\<lparr>calls := [Call_member 0 M_clone]\<rparr>) = heap linear_world"
    using keeps fails by blast
  moreover have "MultiThreadIndex_copy linear_env built_facade linear_world =
     (Inr \<lparr>m_nnIndex = Some (length (heap linear_world)), m_loaded = m_loaded built_facade,
            m_index_params = m_index_params built_facade\<rparr>,
      linear_world\<lparr>heap := heap linear_world @ [Some four_index],
                    calls := calls linear_world @ [Call_member 0 M_clone]\<rparr>)"
    using copies owned unfolding Let_def by blast
  moreover have "operator_assign linear_env built_facade restored_facade linear_world =
     (Inr (),
      \<lparr>m_nnIndex = Some (length (heap linear_world)), m_loaded = m_loaded built_facade,
        m_index_params = m_index_params built_facade\<rparr>,
      linear_world\<lparr>heap := (heap linear_world @ [Some four_index])[1 := None],
        calls := calls linear_world @ [Call_member 0 M_clone, Call_member 1 M_delete]\<rparr>)"
    using copies owned target unfolding Let_def by blast
  ultimately show ?thesis
    using fails by (simp add: linear_world_def built_facade_def)
qed

subsection \<open>Saving, then restoring\<close>



subsection \<open>The configuration and getParameters\<close>

text \<open>
  C8. A facade made by either constructor holds the configuration it was given; no
  sequence of member calls changes it; and \<^verbatim>\<open>getParameters()\<close> of a facade that owns an
  algorithm returns what the algorithm's \<^verbatim>\<open>getParameters()\<close> returns, which need not be
  the configuration the facade holds.
\<close>

theorem configuration_kept_getParameters_asks_algorithm:
  "(MultiThreadIndex_params env params distance w = (Inr f, w') \<longrightarrow> m_index_params f = params) \<and>
   (MultiThreadIndex_features env features params distance w = (Inr f, w') \<longrightarrow>
      m_index_params f = params) \<and>
   m_index_params (fst (run_ops env ops (this, w))) = m_index_params this \<and>
   (m_nnIndex this = Some a \<and> deref (heap w) a = Some obj \<longrightarrow>
      getParameters env this w =
        (NNIndex_getParameters env obj, this,
         w\<lparr>calls := calls w @ [Call_member a M_getParameters]\<rparr>))"
  using ctor_params_fields [of env params distance w f w']
        ctor_features_fields [of env features params distance w f w']
  by (simp add: run_ops_this getParameters_def forward_def const_member_call_valid)

theorem configuration_kept_getParameters_asks_algorithm_witness:
  "(\<exists>f w'. MultiThreadIndex_params linear_env (SavedIndexParams ''idx.bin'') () saved_world
              = (Inr f, w') \<and> m_index_params f = SavedIndexParams ''idx.bin'') \<and>
   m_index_params (fst (run_ops linear_env
      [Op_buildIndex_points [[1, 1]], Op_getParameters, Op_save ''copy.bin'']
      (restored_facade, linear_world))) = SavedIndexParams ''idx.bin'' \<and>
   fst (getParameters linear_env restored_facade linear_world) = Inr linear_params \<and>
   linear_params ''filename'' \<noteq> m_index_params restored_facade ''filename''"
proof -
  note kept = configuration_kept_getParameters_asks_algorithm
          [where env = linear_env and params = "SavedIndexParams ''idx.bin''" and distance = "()"
             and w = saved_world
             and f = "\<lparr>m_nnIndex = Some 2, m_loaded = True,
                        m_index_params = SavedIndexParams ''idx.bin''\<rparr>"
             and w' = "saved_world\<lparr>heap := heap saved_world @ [Some four_index],
                calls := [Call_fopen ''idx.bin'' ''rb'', Call_load_header ''idx.bin'',
                   Call_create_index_by_type FLANN_INDEX_LINEAR, Call_rewind ''idx.bin'',
                   Call_member 2 M_loadIndex, Call_fclose ''idx.bin'']\<rparr>"]
  note asks = configuration_kept_getParameters_asks_algorithm
          [where env = linear_env and this = restored_facade and w = linear_world and a = 1
             and obj = one_index
             and ops = "[Op_buildIndex_points [[1, 1]], Op_getParameters, Op_save ''copy.bin'']"]
  have owned: "m_nnIndex restored_facade = Some 1 \<and> deref (heap linear_world) 1 = Some one_index"
    by (simp add: restored_facade_def linear_world_def deref_def)
  have "m_index_params (fst (run_ops linear_env
      [Op_buildIndex_points [[1, 1]], Op_getParameters, Op_save ''copy.bin'']
      (restored_facade, linear_world))) = m_index_params restored_facade"
    using asks by blast
  moreover have "getParameters linear_env restored_facade linear_world =
        (NNIndex_getParameters linear_env one_index, restored_facade,
         linear_world\<lparr>calls := calls linear_world @ [Call_member 1 M_getParameters]\<rparr>)"
    using asks owned by blast
  moreover have "m_index_params \<lparr>m_nnIndex = Some 2, m_loaded = True,
                   m_index_params = SavedIndexParams ''idx.bin''\<rparr> = SavedIndexParams ''idx.bin''"
    using kept restore_idx_bin by blast
  ultimately show ?thesis
    using restore_idx_bin
    by (simp add: restored_facade_def linear_env_def one_index_def linear_params_def
        SavedIndexParams_def)
qed

subsection \<open>The loaded mark\<close>

text \<open>
  C9. A facade made by either constructor is marked loaded exactly when the
  configuration's algorithm is the "saved" sentinel, and no sequence of calls of
  \<^verbatim>\<open>buildIndex\<close>, \<^verbatim>\<open>addPoints\<close>, \<^verbatim>\<open>removePoint\<close>, \<^verbatim>\<open>getPoint\<close>, \<^verbatim>\<open>save\<close>, the accessors and the
  eight searches changes the mark, whether the calls return or throw.
\<close>

theorem loaded_assigned_by_constructors_only:
  "(MultiThreadIndex_params env params distance w = (Inr f, w') \<longrightarrow>
      m_loaded f = (params ''algorithm'' = Some (any_algorithm FLANN_INDEX_SAVED))) \<and>
   (MultiThreadIndex_features env features params distance w = (Inr f, w') \<longrightarrow>
      m_loaded f = (params ''algorithm'' = Some (any_algorithm FLANN_INDEX_SAVED))) \<and>
   m_loaded (fst (run_ops env ops (this, w))) = m_loaded this"
  using ctor_params_fields [of env params distance w f w']
        ctor_features_fields [of env features params distance w f w']
  by (simp add: run_ops_this)

theorem loaded_assigned_by_constructors_only_witness:
  "(\<exists>f w'. MultiThreadIndex_params linear_env (SavedIndexParams ''idx.bin'') () saved_world
              = (Inr f, w') \<and> m_loaded f) \<and>
   (\<exists>f w'. MultiThreadIndex_features linear_env four_points linear_params () linear_world
              = (Inr f, w') \<and> \<not> m_loaded f) \<and>
   m_loaded (fst (run_ops linear_env
      [Op_buildIndex, Op_addPoints [[1, 1]] 2, Op_removePoint 0, Op_save ''copy.bin'', Op_size,
       Op_knnSearch_Matrix_size_t [[0, 0]] [] [] 1 ()] (restored_facade, linear_world)))"
proof -
  note restored = loaded_assigned_by_constructors_only
          [where env = linear_env and params = "SavedIndexParams ''idx.bin''" and distance = "()"
             and w = saved_world and this = restored_facade
             and f = "\<lparr>m_nnIndex = Some 2, m_loaded = True,
                        m_index_params = SavedIndexParams ''idx.bin''\<rparr>"
             and w' = "saved_world\<lparr>heap := heap saved_world @ [Some four_index],
                calls := [Call_fopen ''idx.bin'' ''rb'', Call_load_header ''idx.bin'',
                   Call_create_index_by_type FLANN_INDEX_LINEAR, Call_rewind ''idx.bin'',
                   Call_member 2 M_loadIndex, Call_fclose ''idx.bin'']\<rparr>"]
  note created = loaded_assigned_by_constructors_only
          [where env = linear_env and params = linear_params and distance = "()"
             and w = linear_world and this = restored_facade and features = four_points
             and f = "\<lparr>m_nnIndex = Some 2, m_loaded = False, m_index_params = linear_params\<rparr>"
             and w' = "linear_world\<lparr>heap := heap linear_world @ [Some four_index],
                calls := [Call_create_index_by_type FLANN_INDEX_LINEAR]\<rparr>"
             and ops = "[Op_buildIndex, Op_addPoints [[1, 1]] 2, Op_removePoint 0,
                Op_save ''copy.bin'', Op_size, Op_knnSearch_Matrix_size_t [[0, 0]] [] [] 1 ()]"]
  have "m_loaded \<lparr>m_nnIndex = Some 2, m_loaded = True,
                   m_index_params = SavedIndexParams ''idx.bin''\<rparr>"
    using restored restore_idx_bin by (simp add: SavedIndexParams_def)
  moreover have "\<not> m_loaded \<lparr>m_nnIndex = Some 2, m_loaded = False, m_index_params = linear_params\<rparr>"
    using created create_linear by (simp add: linear_params_def FLANN_INDEX_LINEAR_def)
  moreover have "m_loaded (fst (run_ops linear_env
      [Op_buildIndex, Op_addPoints [[1, 1]] 2, Op_removePoint 0, Op_save ''copy.bin'', Op_size,
       Op_knnSearch_Matrix_size_t [[0, 0]] [] [] 1 ()] (restored_facade, linear_world)))
      = m_loaded restored_facade"
    using created by blast
  ultimately show ?thesis
    using restore_idx_bin create_linear by (simp add: restored_facade_def)
qed

subsection \<open>log\_verbosity\<close>

text \<open>
  C10. \<^verbatim>\<open>log_verbosity(level)\<close> hands a non-negative \<open>level\<close> to \<^verbatim>\<open>Logger::setLevel\<close>, which
  makes it the logger's level, and for a negative \<open>level\<close> it leaves the logger as it
  was.
\<close>

theorem log_verbosity_sets_nonnegative_level:
  "(0 \<le>s level \<longrightarrow>
      log_verbosity setLevel level lg = setLevel level lg \<and>
      logLevel (log_verbosity Logger_setLevel level l) = level) \<and>
   (level <s 0 \<longrightarrow>
      log_verbosity setLevel level lg = lg \<and>
      log_verbosity Logger_setLevel level l = l)"
  by (auto simp: log_verbosity_def Logger_setLevel_def word_sle_eq word_sless_alt)

theorem log_verbosity_sets_nonnegative_level_witness:
  "logLevel (log_verbosity Logger_setLevel 3 \<lparr>logLevel = 1\<rparr>) = 3 \<and>
   log_verbosity Logger_setLevel (- 1) \<lparr>logLevel = 1\<rparr> = \<lparr>logLevel = 1\<rparr>"
  using log_verbosity_sets_nonnegative_level [of 3 Logger_setLevel "\<lparr>logLevel = 1\<rparr>" "\<lparr>logLevel = 1\<rparr>"]
        log_verbosity_sets_nonnegative_level [of "- 1" Logger_setLevel "\<lparr>logLevel = 1\<rparr>" "\<lparr>logLevel = 1\<rparr>"]
  by (simp add: Logger_setLevel_def word_sle_eq word_sless_alt)

end
